theory Spec2Isabelle
  imports Complex_Main "HOL-Library.AList"
begin

section \<open>Data model of \<open>visual_slam_impl.cpp\<close>\<close>

text \<open>
  The tracking engine (cuVSLAM), the message transport, the file system and the clock are
  outside the file. Every value they hand back is an explicit argument of the model
  (the records \<open>externals\<close>, \<open>tick_env\<close>, \<open>engine_reply\<close>, \<open>fs_view\<close>), and every call
  made to them is an entry of the event list a modelled function returns next to the new
  state. Numeric arrays (poses, transforms, covariances, twists) are lists of reals; the
  arithmetic the source delegates to tf2, Eigen and the caches is a parameter.
\<close>

subsection \<open>Status codes\<close>

text \<open>
  \<open>CUVSLAM_Status\<close>: the five codes the file names, and \<open>CUVSLAM_STATUS_CODE n\<close> for any
  other code of the engine's header.
\<close>

datatype CUVSLAM_Status =
    CUVSLAM_SUCCESS
  | CUVSLAM_TRACKING_LOST
  | CUVSLAM_CAN_NOT_LOCALIZE
  | CUVSLAM_GENERIC_ERROR
  | CUVSLAM_SLAM_IS_NOT_INITIALIZED
  | CUVSLAM_STATUS_CODE nat

type_synonym CUVSLAM_Pose = "real list"
type_synonym Transform = "real list"
type_synonym PoseType = "real list"
type_synonym Twist = "real list"

subsection \<open>Messages\<close>

record ImuType =
  imu_stamp :: int
  imu_frame_id :: string
  imu_data :: "real list"

record ImageType =
  image_stamp :: int
  image_buffer :: nat

record CameraInfoType =
  info_stamp :: int
  info_frame_id :: string
  info_width :: nat
  info_height :: nat

record Header =
  stamp :: int
  frame_id :: string

record PoseStampedType =
  ps_header :: Header
  ps_pose :: PoseType

record OdometryType =
  odom_header :: Header
  odom_child_frame_id :: string
  odom_pose :: PoseType
  odom_pose_covariance :: "real list"
  odom_twist :: Twist
  odom_twist_covariance :: "real list"

datatype diagnostic_value =
    Value_status CUVSLAM_Status
  | Value_double real
  | Value_string string

datatype diagnostic_level = Level_OK | Level_WARN

datatype message =
    Msg_PoseStamped PoseStampedType
  | Msg_PoseWithCovarianceStamped Header PoseType "real list"
  | Msg_Odometry OdometryType
  | Msg_MarkerArray int string Twist
  | Msg_Marker int string "real list"
  | Msg_Path Header "PoseStampedType list"
  | Msg_VisualSlamStatus Header nat real real real real
  | Msg_DiagnosticArray Header diagnostic_level "(string \<times> diagnostic_value) list"

datatype publisher =
    tracking_vo_pose_pub
  | tracking_vo_pose_covariance_pub
  | tracking_odometry_pub
  | vis_vo_velocity_pub
  | vis_slam_odometry_pub
  | tracking_vo_path_pub
  | tracking_slam_path_pub
  | vis_gravity_pub
  | visual_slam_status_pub
  | diagnostics_pub

subsection \<open>Events: every call that leaves the file\<close>

datatype severity = DEBUG | INFO | WARN | ERROR

text \<open>
  An image handed to the engine: camera index, image, timestamp and the mask found for
  that camera, as the arguments of \<open>TocuVSLAMImage\<close>.
\<close>

type_synonym CUVSLAM_Image = "int \<times> ImageType \<times> int \<times> ImageType option"

datatype event =
    Ev_Log severity string
  | Ev_RegisterImuMeasurement int ImuType
  | Ev_TrackGpuMem "CUVSLAM_Image list"
  | Ev_GetSlamPose
  | Ev_GroundConstraintAddNextPose CUVSLAM_Pose
  | Ev_GroundConstraintGetPoseOnGround
  | Ev_GetLastGravity
  | Ev_SaveToSlamDb string nat
  | Ev_LocalizeInExistDb string CUVSLAM_Pose nat
  | Ev_GroundConstraintCreate
  | Ev_CreateTracker
  | Ev_DestroyTracker nat
  | Ev_GroundConstraintDestroy nat
  | Ev_VisHelpersInit
  | Ev_VisHelpersExit
  | Ev_DetachedLocalizeInMap string
  | Ev_SyncAddMessage int int ImageType
  | Ev_SequencerCallbackStream1 int ImuType
  | Ev_SequencerCallbackStream2 int "(int \<times> ImageType) list"
  | Ev_SendTransform int Transform string string
  | Ev_Publish publisher message

subsection \<open>Promises and futures\<close>

text \<open>
  The shared state of a \<open>boost::promise\<close> lives in process memory at an address; the
  promise and its future both hold that address. A response is the \<open>Response\<close> struct of
  the command's context: a status for \<open>SaveToSlamDbContext\<close>, a status and a pose (read
  only on success) for \<open>LocalizeInExistDbContext\<close>.
\<close>

datatype response =
    SaveToSlamDb_Response CUVSLAM_Status
  | LocalizeInExistDb_Response CUVSLAM_Status "CUVSLAM_Pose option"

datatype shared_state = NotReady | Ready response

datatype exn = promise_already_satisfied | runtime_error | out_of_range

text \<open>
  The state of the \<open>boost::future<std::optional<PoseType>>\<close> kept in
  \<open>localization_future_\<close>, as \<open>wait_for(0)\<close> and \<open>get()\<close> observe it.
\<close>

datatype future_state =
    future_not_ready
  | future_value "PoseType option"
  | future_exception string

record LocalizeInExistDbContext =
  response_promise :: nat
  pose_storage :: "CUVSLAM_Pose option"

subsection \<open>The node's parameters and the members of \<open>VisualSlamImpl\<close>\<close>

record VisualSlamNode =
  enable_imu_fusion :: bool
  num_cameras :: nat
  image_jitter_threshold_ms :: real
  override_publishing_stamp :: bool
  enable_localization_n_mapping :: bool
  enable_ground_constraint_in_odometry :: bool
  enable_slam_visualization :: bool
  localize_on_startup :: bool
  load_map_folder_path :: string
  publish_map_to_odom_tf :: bool
  invert_map_to_odom_tf :: bool
  publish_odom_to_base_tf :: bool
  invert_odom_to_base_tf :: bool
  map_frame :: string
  odom_frame :: string
  base_frame :: string

text \<open>
  The members the modelled functions read or write, and the process memory holding the
  shared states of the promises (\<open>shared_states\<close>, with \<open>next_address\<close> the first
  address never allocated).
\<close>

record VisualSlamImpl =
  cuvslam_handle :: "nat option"
  ground_constraint_handle :: "nat option"
  initial_imu_message :: "ImuType option"
  initial_camera_info_messages :: "(int \<times> CameraInfoType) list"
  pose_cache :: "(int \<times> Transform) list"
  velocity_cache :: "Twist list"
  vo_path :: "PoseStampedType list"
  slam_path :: "PoseStampedType list"
  track_execution_times :: "real list"
  last_track_ts :: int
  localized_in_exist_map :: bool
  localization_future :: "future_state option"
  localize_in_exist_db_context :: LocalizeInExistDbContext
  shared_states :: "nat \<Rightarrow> shared_state"
  next_address :: nat

subsection \<open>The pose and velocity caches\<close>

text \<open>
  Modelled from the spec: the class of \<open>pose_cache\<close> and \<open>velocity_cache\<close> is declared
  outside the source file. The spec (4.4) gives it as a bounded history: \<open>Reset()\<close> clears
  the buffer.
\<close>

definition PoseCache_Reset :: "'a list \<Rightarrow> 'a list" where
  "PoseCache_Reset samples = []"

text \<open>
  Modelled from the spec: \<open>Add\<close> of the same class, which "inserts into the ring buffer,
  evicting oldest beyond capacity". The capacity is a parameter.
\<close>

definition PoseCache_Add :: "nat \<Rightarrow> 'a \<Rightarrow> 'a list \<Rightarrow> 'a list" where
  "PoseCache_Add capacity x samples =
     (let ys = samples @ [x] in drop (length ys - capacity) ys)"

section \<open>The asynchronous commands\<close>

subsection \<open>Promise operations\<close>

text \<open>
  \<open>promise::set_value\<close>: stores the value in a shared state that has none, and throws
  \<open>promise_already_satisfied\<close> otherwise.
\<close>

definition set_value :: "nat \<Rightarrow> response \<Rightarrow> VisualSlamImpl \<Rightarrow> exn + VisualSlamImpl" where
  "set_value a v s =
     (case shared_states s a of
        NotReady \<Rightarrow> Inr (s\<lparr>shared_states := (shared_states s)(a := Ready v)\<rparr>)
      | Ready _ \<Rightarrow> Inl promise_already_satisfied)"

text \<open>A default-constructed promise: a new shared state, not ready, at a new address.\<close>

definition new_promise :: "VisualSlamImpl \<Rightarrow> nat \<times> VisualSlamImpl" where
  "new_promise s =
     (next_address s,
      s\<lparr>shared_states := (shared_states s)(next_address s := NotReady),
        next_address := Suc (next_address s)\<rparr>)"

text \<open>\<open>future::wait_for(0) == ready\<close> on the future of the promise at an address.\<close>

definition is_ready :: "VisualSlamImpl \<Rightarrow> nat \<Rightarrow> bool" where
  "is_ready s a = (shared_states s a \<noteq> NotReady)"

subsection \<open>Completion handlers\<close>

text \<open>
  \<open>SaveToSlamDbResponse\<close>: the context pointer is the address of the \<open>SaveToSlamDbContext\<close>
  local to \<open>SaveMap\<close>, whose only member is the promise.
\<close>

definition SaveToSlamDbResponse ::
  "nat \<Rightarrow> CUVSLAM_Status \<Rightarrow> VisualSlamImpl \<Rightarrow> exn + VisualSlamImpl" where
  "SaveToSlamDbResponse anonymous_context st s =
     set_value anonymous_context (SaveToSlamDb_Response st) s"

text \<open>
  \<open>LocalizeInExistDbResponse\<close>: the only context pointer the file ever passes is the
  address of the member \<open>localize_in_exist_db_context\<close>, so the handler reads the promise
  that member holds when the handler runs. The pose is copied only on success.
\<close>

definition LocalizeInExistDbResponse ::
  "CUVSLAM_Status \<Rightarrow> CUVSLAM_Pose option \<Rightarrow> VisualSlamImpl \<Rightarrow> exn + VisualSlamImpl" where
  "LocalizeInExistDbResponse st pose_in_db s =
     set_value (response_promise (localize_in_exist_db_context s))
       (LocalizeInExistDb_Response st (if st = CUVSLAM_SUCCESS then pose_in_db else None)) s"

text \<open>
  What the engine does inside an initiating call: the status it returns, and the
  completion it delivers before returning, if any (status and pose pointer).
\<close>

record engine_reply =
  call_result :: CUVSLAM_Status
  completion_in_call :: "(CUVSLAM_Status \<times> CUVSLAM_Pose option) option"

subsection \<open>\<open>SaveMap\<close>\<close>

datatype SaveMap_progress = Returned CUVSLAM_Status | Waiting nat

text \<open>
  \<open>SaveMap\<close> up to the point where it blocks in \<open>response_future.get()\<close>: either it has
  returned a status, or it waits on the future of the promise at the given address. The
  future taken from a new promise is valid, so the \<open>Future is invalid\<close> branch is not
  reachable and left out.
\<close>

definition SaveMap_issue ::
  "VisualSlamNode \<Rightarrow> engine_reply \<Rightarrow> string \<Rightarrow> VisualSlamImpl
   \<Rightarrow> exn + (VisualSlamImpl \<times> event list \<times> SaveMap_progress)" where
  "SaveMap_issue node eng map_folder_path s =
     (if \<not> enable_localization_n_mapping node then
        Inr (s,
             [Ev_Log INFO ''Saving map to %s'',
              Ev_Log WARN ''Cannot save map because `enable_localization_n_mapping` is set to false.''],
             Returned CUVSLAM_SLAM_IS_NOT_INITIALIZED)
      else
        let (context, s1) = new_promise s;
            evs = [Ev_Log INFO ''Saving map to %s'', Ev_SaveToSlamDb map_folder_path context]
        in case (case completion_in_call eng of
                   None \<Rightarrow> Inr s1
                 | Some (st, _) \<Rightarrow> SaveToSlamDbResponse context st s1) of
             Inl e \<Rightarrow> Inl e
           | Inr s2 \<Rightarrow>
               if call_result eng \<noteq> CUVSLAM_SUCCESS then
                 Inr (s2, evs @ [Ev_Log ERROR ''CUVSLAM_SaveToSlamDb Error %d''],
                      Returned (call_result eng))
               else Inr (s2, evs, Waiting context))"

text \<open>
  The rest of \<open>SaveMap\<close>, from \<open>response_future.get()\<close>: \<open>None\<close> while the shared state
  is not ready (the caller stays blocked), the returned status and the log line once it is.
\<close>

definition SaveMap_get ::
  "nat \<Rightarrow> VisualSlamImpl \<Rightarrow> (event list \<times> CUVSLAM_Status) option" where
  "SaveMap_get context s =
     (case shared_states s context of
        Ready (SaveToSlamDb_Response st) \<Rightarrow>
          if st \<noteq> CUVSLAM_SUCCESS
          then Some ([Ev_Log ERROR ''Failed to save map. Error %d''], st)
          else Some ([Ev_Log INFO ''Finished saving map with status %d.''], st)
      | _ \<Rightarrow> None)"

subsection \<open>\<open>CuvslamInternalLocalizeInMapAsync\<close>\<close>

record dir_entry =
  is_regular_file :: bool
  extension :: string

record fs_view =
  is_directory :: "string \<Rightarrow> bool"
  directory_iterator :: "string \<Rightarrow> dir_entry list"

text \<open>The loop over the directory entries, leaving at the first \<open>.mdb\<close> regular file.\<close>

fun has_lmdb_files :: "dir_entry list \<Rightarrow> bool" where
  "has_lmdb_files [] = False"
| "has_lmdb_files (entry # entries) =
     (if is_regular_file entry \<and> extension entry = ''.mdb'' then True
      else has_lmdb_files entries)"

text \<open>
  The assignment \<open>localize_in_exist_db_context = LocalizeInExistDbContext()\<close> puts a new
  promise in the member; the shared state of the promise it held before is not written.
  The function returns the future of the new promise (its address).
\<close>

definition CuvslamInternalLocalizeInMapAsync ::
  "VisualSlamNode \<Rightarrow> fs_view \<Rightarrow> engine_reply \<Rightarrow> string \<Rightarrow> CUVSLAM_Pose \<Rightarrow> VisualSlamImpl
   \<Rightarrow> exn + (VisualSlamImpl \<times> event list \<times> nat)" where
  "CuvslamInternalLocalizeInMapAsync node fs eng map_folder_path pose_hint s =
     (let (p, s0) = new_promise s;
          s1 = s0\<lparr>localize_in_exist_db_context :=
                    \<lparr>response_promise = p, pose_storage = None\<rparr>\<rparr>;
          response_future = p
      in if \<not> enable_localization_n_mapping node then
           (case LocalizeInExistDbResponse CUVSLAM_SLAM_IS_NOT_INITIALIZED None s1 of
              Inl e \<Rightarrow> Inl e
            | Inr s2 \<Rightarrow>
                Inr (s2,
                     [Ev_Log ERROR ''Cannot localize in map because `enable_localization_n_mapping` is set to false.''],
                     response_future))
         else if \<not> is_directory fs map_folder_path then
           (case LocalizeInExistDbResponse CUVSLAM_GENERIC_ERROR None s1 of
              Inl e \<Rightarrow> Inl e
            | Inr s2 \<Rightarrow>
                Inr (s2, [Ev_Log ERROR ''Map folder '%s' does not exist.''], response_future))
         else if \<not> has_lmdb_files (directory_iterator fs map_folder_path) then
           (case LocalizeInExistDbResponse CUVSLAM_GENERIC_ERROR None s1 of
              Inl e \<Rightarrow> Inl e
            | Inr s2 \<Rightarrow>
                Inr (s2,
                     [Ev_Log ERROR ''Map folder '%s' does not contain .mdb database files.''],
                     response_future))
         else
           let s2 = s1\<lparr>localize_in_exist_db_context :=
                         (localize_in_exist_db_context s1)\<lparr>pose_storage := Some pose_hint\<rparr>\<rparr>;
               evs = [Ev_Log INFO ''Map folder '%s' exists and contains database files. Starting async localization...'',
                      Ev_LocalizeInExistDb map_folder_path pose_hint
                        (response_promise (localize_in_exist_db_context s2))]
           in case (case completion_in_call eng of
                      None \<Rightarrow> Inr s2
                    | Some (st, pose_in_db) \<Rightarrow> LocalizeInExistDbResponse st pose_in_db s2) of
                Inl e \<Rightarrow> Inl e
              | Inr s3 \<Rightarrow>
                  Inr (s3,
                       evs
                       @ (if call_result eng \<noteq> CUVSLAM_SUCCESS
                          then [Ev_Log ERROR ''CUVSLAM_LocalizeInExistDb Error %d''] else [])
                       @ [Ev_Log INFO ''Async localization started, waiting for callback during normal tracking''],
                       response_future))"

subsection \<open>\<open>Exit\<close>\<close>

text \<open>
  \<open>Exit\<close> destroys the handles, clears the caches and the initial messages, and tries to
  set the promise of \<open>localize_in_exist_db_context\<close>; the exception of a promise already
  set is caught and dropped.
\<close>

definition Exit :: "VisualSlamImpl \<Rightarrow> VisualSlamImpl \<times> event list" where
  "Exit s =
     (let evs = [Ev_VisHelpersExit]
            @ (case cuvslam_handle s of
                 None \<Rightarrow> []
               | Some h \<Rightarrow> [Ev_DestroyTracker h, Ev_Log INFO ''cuVSLAM tracker was destroyed''])
            @ (case ground_constraint_handle s of
                 None \<Rightarrow> []
               | Some g \<Rightarrow> [Ev_GroundConstraintDestroy g,
                            Ev_Log INFO ''cuVSLAM ground constraint was destroyed'']);
          s1 = s\<lparr>cuvslam_handle := None, ground_constraint_handle := None,
                 pose_cache := PoseCache_Reset (pose_cache s),
                 velocity_cache := PoseCache_Reset (velocity_cache s),
                 initial_imu_message := None, initial_camera_info_messages := []\<rparr>
      in case set_value (response_promise (localize_in_exist_db_context s1))
                (LocalizeInExistDb_Response CUVSLAM_CAN_NOT_LOCALIZE None) s1 of
           Inr s2 \<Rightarrow> (s2, evs)
         | Inl e \<Rightarrow> (s1, evs))"

subsection \<open>\<open>CheckLocalizationStatus\<close>\<close>

text \<open>
  The mutex is held for the whole body, so the body is one atomic step. The future is
  asked with \<open>wait_for(0)\<close>; only a ready future is read with \<open>get()\<close>, whose exception is
  caught and logged, and only then is the member reset.
\<close>

definition CheckLocalizationStatus :: "VisualSlamImpl \<Rightarrow> VisualSlamImpl \<times> event list" where
  "CheckLocalizationStatus s =
     (case localization_future s of
        None \<Rightarrow> (s, [])
      | Some future_not_ready \<Rightarrow> (s, [])
      | Some (future_value maybe_pose) \<Rightarrow>
          (s\<lparr>localization_future := None\<rparr>,
           [case maybe_pose of
              Some _ \<Rightarrow> Ev_Log INFO ''Localization completed successfully''
            | None \<Rightarrow> Ev_Log ERROR ''Localization failed''])
      | Some (future_exception what) \<Rightarrow>
          (s\<lparr>localization_future := None\<rparr>,
           [Ev_Log ERROR (''Localization exception: '' @ what)]))"

section \<open>Initialization and the sensor callbacks\<close>

definition IsInitialized :: "VisualSlamImpl \<Rightarrow> bool" where
  "IsInitialized s = (cuvslam_handle s \<noteq> None)"

text \<open>
  \<open>initial_camera_info_messages\<close> is a map from camera index to message, kept as an
  association list with one entry per key; its \<open>size()\<close> is the length of the list.
\<close>

definition IsReadyForInitialization :: "VisualSlamNode \<Rightarrow> VisualSlamImpl \<Rightarrow> bool" where
  "IsReadyForInitialization node s =
     (if enable_imu_fusion node \<and> initial_imu_message s = None then False
      else if length (initial_camera_info_messages s) = num_cameras node then True
      else False)"

text \<open>
  What \<open>Initialize\<close> gets from outside: the result of \<open>CUVSLAM_GroundConstraintCreate\<close>,
  the exception thrown while the camera rig is set up, if any (\<open>GetLatestTransform\<close> throws
  \<open>runtime_error\<close>, \<open>at()\<close> throws \<open>out_of_range\<close>), and the result of
  \<open>CUVSLAM_CreateTracker\<close>. The rig set-up (frames, intrinsics, extrinsics, borders, the
  IMU transform) writes only \<open>cuvslam_cameras\<close> and \<open>intrinsics\<close>, which no other modelled
  function reads.
\<close>

record init_env =
  GroundConstraintCreate_result :: "CUVSLAM_Status \<times> nat"
  rig_setup_throws :: "exn option"
  CreateTracker_result :: "CUVSLAM_Status \<times> nat"

definition Initialize ::
  "VisualSlamNode \<Rightarrow> init_env \<Rightarrow> VisualSlamImpl \<Rightarrow> VisualSlamImpl \<times> event list \<times> exn option" where
  "Initialize node ienv s =
     (if IsInitialized s then
        (s, [Ev_Log WARN ''VisualSlamImpl was already initialized.''], None)
      else
        let ev0 = [Ev_Log INFO ''Initializing cuVSLAM.'']
        in if enable_ground_constraint_in_odometry node
              \<and> fst (GroundConstraintCreate_result ienv) \<noteq> CUVSLAM_SUCCESS then
             (s, ev0 @ [Ev_GroundConstraintCreate,
                        Ev_Log ERROR ''Failed to initialize cuVSLAM ground constraint: %d''], None)
           else
             let s1 = (if enable_ground_constraint_in_odometry node
                       then s\<lparr>ground_constraint_handle :=
                                Some (snd (GroundConstraintCreate_result ienv))\<rparr>
                       else s);
                 ev1 = ev0 @ (if enable_ground_constraint_in_odometry node
                              then [Ev_GroundConstraintCreate] else [])
             in case rig_setup_throws ienv of
                  Some e \<Rightarrow> (s1, ev1, Some e)
                | None \<Rightarrow>
                    let ev2 = ev1 @ [Ev_CreateTracker,
                                     Ev_Log INFO ''Time taken by CUVSLAM_CreateTracker(): %f'']
                    in if fst (CreateTracker_result ienv) \<noteq> CUVSLAM_SUCCESS then
                         (s1, ev2 @ [Ev_Log ERROR ''Failed to initialize CUVSLAM tracker: %d''],
                          None)
                       else
                         (s1\<lparr>pose_cache := PoseCache_Reset (pose_cache s1),
                             velocity_cache := PoseCache_Reset (velocity_cache s1),
                             cuvslam_handle := Some (snd (CreateTracker_result ienv))\<rparr>,
                          ev2
                          @ (if enable_slam_visualization node then [Ev_VisHelpersInit] else [])
                          @ [Ev_Log INFO ''cuVSLAM tracker was successfully initialized.'']
                          @ (if localize_on_startup node
                             then [Ev_DetachedLocalizeInMap (load_map_folder_path node)]
                             else []),
                          None))"

definition CallbackImu :: "ImuType \<Rightarrow> VisualSlamImpl \<Rightarrow> VisualSlamImpl \<times> event list" where
  "CallbackImu msg s =
     (if IsInitialized s then (s, [Ev_SequencerCallbackStream1 (imu_stamp msg) msg])
      else (s\<lparr>initial_imu_message := Some msg\<rparr>, []))"

definition CallbackImage ::
  "int \<Rightarrow> ImageType \<Rightarrow> VisualSlamImpl \<Rightarrow> VisualSlamImpl \<times> event list" where
  "CallbackImage index image_view s =
     (if IsInitialized s then (s, [Ev_SyncAddMessage index (image_stamp image_view) image_view])
      else (s, []))"

definition CallbackCameraInfo ::
  "VisualSlamNode \<Rightarrow> init_env \<Rightarrow> int \<Rightarrow> CameraInfoType \<Rightarrow> VisualSlamImpl
   \<Rightarrow> VisualSlamImpl \<times> event list \<times> exn option" where
  "CallbackCameraInfo node ienv index msg s =
     (if \<not> IsInitialized s then
        let s1 = s\<lparr>initial_camera_info_messages :=
                     AList.update index msg (initial_camera_info_messages s)\<rparr>
        in if IsReadyForInitialization node s1 then Initialize node ienv s1
           else (s1, [], None)
      else (s, [], None))"

definition CallbackSynchronizedImages ::
  "int \<Rightarrow> (int \<times> ImageType) list \<Rightarrow> VisualSlamImpl \<Rightarrow> VisualSlamImpl \<times> event list" where
  "CallbackSynchronizedImages latest_ts idx_and_image_msgs s =
     (s, [Ev_SequencerCallbackStream2 latest_ts idx_and_image_msgs])"

section \<open>The tracking tick: \<open>UpdatePose\<close>\<close>

subsection \<open>What a tick gets from outside\<close>

record pose_estimate =
  estimate_pose :: CUVSLAM_Pose
  estimate_covariance :: "real list"

text \<open>
  The answers of the engine during one tick (the status of the k-th
  \<open>CUVSLAM_RegisterImuMeasurement\<close> call, the result of \<open>CUVSLAM_TrackGpuMem\<close>, of the two
  ground-constraint calls, of \<open>CUVSLAM_GetSlamPose\<close> and \<open>CUVSLAM_GetLastGravity\<close>), the
  clock, the two stopwatches and the subscriber counts.
\<close>

record tick_env =
  RegisterImuMeasurement_status :: "nat \<Rightarrow> CUVSLAM_Status"
  TrackGpuMem_status :: CUVSLAM_Status
  TrackGpuMem_estimate :: pose_estimate
  AddNextPose_status :: CUVSLAM_Status
  GetPoseOnGround_result :: "CUVSLAM_Status \<times> CUVSLAM_Pose"
  GetSlamPose_result :: "CUVSLAM_Status \<times> CUVSLAM_Pose"
  GetLastGravity_result :: "CUVSLAM_Status \<times> real list"
  clock_now :: int
  stopwatch_track_seconds :: real
  stopwatch_seconds :: real
  HasSubscribers :: "publisher \<Rightarrow> bool"

text \<open>
  The pure helpers declared in headers outside the file: the conversions, the transform
  algebra of tf2, the statistics of the caches and \<open>LimitedVector::add\<close>.
  \<open>GetCovariance\<close> gets the array it writes into and returns the flag and the array.
\<close>

record externals =
  FromcuVSLAMPose :: "CUVSLAM_Pose \<Rightarrow> Transform"
  ChangeBasis :: "Transform \<Rightarrow> Transform \<Rightarrow> Transform"
  canonical_pose_cuvslam :: Transform
  transform_mul :: "Transform \<Rightarrow> Transform \<Rightarrow> Transform"
  transform_inverse :: "Transform \<Rightarrow> Transform"
  transform_apply :: "Transform \<Rightarrow> real list \<Rightarrow> real list"
  toMsg :: "Transform \<Rightarrow> PoseType"
  FromcuVSLAMCovariance :: "real list \<Rightarrow> real list"
  pose_cache_capacity :: nat
  velocity_cache_capacity :: nat
  PoseCache_GetVelocity :: "(int \<times> Transform) list \<Rightarrow> Twist"
  PoseCache_GetCovariance :: "(int \<times> Transform) list \<Rightarrow> real list \<Rightarrow> bool \<times> real list"
  VelocityCache_GetCovariance :: "Twist list \<Rightarrow> real list \<Rightarrow> bool \<times> real list"
  LimitedVector_add_pose :: "PoseStampedType \<Rightarrow> PoseStampedType list \<Rightarrow> PoseStampedType list"
  LimitedVector_add_time :: "real \<Rightarrow> real list \<Rightarrow> real list"

subsection \<open>The parts of the tick\<close>

text \<open>
  \<open>std::max_element\<close> over the image timestamps; the source assumes the vector is not
  empty and dereferences the result, so an empty vector has no result here.
\<close>

fun max_element_stamp :: "int \<Rightarrow> (int \<times> ImageType) list \<Rightarrow> int" where
  "max_element_stamp best [] = best"
| "max_element_stamp best (msg # msgs) =
     max_element_stamp
       (if best < image_stamp (snd msg) then image_stamp (snd msg) else best) msgs"

definition latest_image_stamp :: "(int \<times> ImageType) list \<Rightarrow> int option" where
  "latest_image_stamp idx_and_image_msgs =
     (case idx_and_image_msgs of
        [] \<Rightarrow> None
      | msg # msgs \<Rightarrow> Some (max_element_stamp (image_stamp (snd msg)) msgs))"

text \<open>The loop over \<open>imu_msgs\<close>; \<open>k\<close> counts the calls made to the engine so far.\<close>

fun register_imu_measurements ::
  "tick_env \<Rightarrow> int \<Rightarrow> nat \<Rightarrow> ImuType list \<Rightarrow> event list" where
  "register_imu_measurements env latest_ts k [] = []"
| "register_imu_measurements env latest_ts k (imu_msg # imu_msgs) =
     [Ev_Log DEBUG ''Using imu msg timestamp [%ld]'',
      Ev_RegisterImuMeasurement latest_ts imu_msg]
     @ (if RegisterImuMeasurement_status env k \<noteq> CUVSLAM_SUCCESS
        then [Ev_Log WARN ''CUVSLAM has failed to register an IMU measurement''] else [])
     @ register_imu_measurements env latest_ts (Suc k) imu_msgs"

text \<open>The first loop over the synchronized messages: masks by camera index.\<close>

fun extract_masks ::
  "nat \<Rightarrow> (int \<times> ImageType) list \<Rightarrow> (int \<rightharpoonup> ImageType) \<Rightarrow> (int \<rightharpoonup> ImageType)" where
  "extract_masks n [] mask_msgs = mask_msgs"
| "extract_masks n (msg # msgs) mask_msgs =
     extract_masks n msgs
       (if fst msg \<ge> int n then mask_msgs(fst msg - int n \<mapsto> snd msg) else mask_msgs)"

text \<open>The second loop: one engine image per camera message, with its mask if there is one.\<close>

fun convert_images ::
  "nat \<Rightarrow> int \<Rightarrow> (int \<rightharpoonup> ImageType) \<Rightarrow> (int \<times> ImageType) list \<Rightarrow> CUVSLAM_Image list" where
  "convert_images n latest_ts mask_msgs [] = []"
| "convert_images n latest_ts mask_msgs (msg # msgs) =
     (if fst msg < int n then [(fst msg, snd msg, latest_ts, mask_msgs (fst msg))] else [])
     @ convert_images n latest_ts mask_msgs msgs"

text \<open>\<open>PoseToGround\<close>: the result, the pose as left in place, and the engine calls made.\<close>

definition PoseToGround :: "tick_env \<Rightarrow> CUVSLAM_Pose \<Rightarrow> bool \<times> CUVSLAM_Pose \<times> event list" where
  "PoseToGround env p =
     (if AddNextPose_status env \<noteq> CUVSLAM_SUCCESS then
        (False, p, [Ev_GroundConstraintAddNextPose p])
      else if fst (GetPoseOnGround_result env) \<noteq> CUVSLAM_SUCCESS then
        (False, p, [Ev_GroundConstraintAddNextPose p, Ev_GroundConstraintGetPoseOnGround])
      else
        (True, snd (GetPoseOnGround_result env),
         [Ev_GroundConstraintAddNextPose p, Ev_GroundConstraintGetPoseOnGround]))"

text \<open>The two nested loops that write the identity into a covariance array.\<close>

definition set_identity :: "real list \<Rightarrow> real list" where
  "set_identity covariance =
     foldl (\<lambda>c i. foldl (\<lambda>c j. c[i * 6 + j := (if i = j then 1 else 0)]) c [0..<6])
       covariance [0..<6]"

text \<open>The loop copying the 36 entries of the converted engine covariance.\<close>

definition copy_covariance :: "real list \<Rightarrow> real list" where
  "copy_covariance covariance_transform =
     foldl (\<lambda>c i. c[i := covariance_transform ! i]) (replicate 36 0) [0..<36]"

text \<open>
  The \<open>OdometryType\<close> message of the \<open>tracking_odometry_pub_\<close> block, from the two caches
  as they are when the block runs. The covariance arrays of a new message hold zeros.
\<close>

definition tracking_odometry ::
  "VisualSlamNode \<Rightarrow> externals \<Rightarrow> Header \<Rightarrow> PoseType \<Rightarrow> Twist
   \<Rightarrow> (int \<times> Transform) list \<Rightarrow> Twist list \<Rightarrow> OdometryType" where
  "tracking_odometry node ext header_odom vo_pose velocity poses velocities =
     (let (res, pose_cov) = PoseCache_GetCovariance ext poses (replicate 36 0);
          pose_cov' = (if \<not> res then set_identity pose_cov else pose_cov);
          (res', twist_cov) = VelocityCache_GetCovariance ext velocities (replicate 36 0);
          twist_cov' = (if \<not> res' then set_identity twist_cov else twist_cov)
      in \<lparr>odom_header = header_odom, odom_child_frame_id = base_frame node,
          odom_pose = vo_pose, odom_pose_covariance = pose_cov',
          odom_twist = velocity, odom_twist_covariance = twist_cov'\<rparr>)"

text \<open>\<open>PublishGravity\<close>: nothing is published while the engine has no gravity estimate.\<close>

definition PublishGravity :: "externals \<Rightarrow> tick_env \<Rightarrow> int \<Rightarrow> string \<Rightarrow> event list" where
  "PublishGravity ext env stamp' frame =
     (if fst (GetLastGravity_result env) \<noteq> CUVSLAM_SUCCESS then [Ev_GetLastGravity]
      else [Ev_GetLastGravity,
            Ev_Publish vis_gravity_pub
              (Msg_Marker stamp' frame
                 (transform_apply ext (canonical_pose_cuvslam ext)
                    (snd (GetLastGravity_result env))))])"

definition PublishOdometryVelocity ::
  "externals \<Rightarrow> int \<Rightarrow> string \<Rightarrow> VisualSlamImpl \<Rightarrow> event list" where
  "PublishOdometryVelocity ext stamp' frame s =
     [Ev_Publish vis_vo_velocity_pub
        (Msg_MarkerArray stamp' frame (PoseCache_GetVelocity ext (pose_cache s)))]"

text \<open>\<open>PublishFrameTransform\<close> with the inversion switch of the two call sites.\<close>

definition PublishFrameTransform ::
  "externals \<Rightarrow> bool \<Rightarrow> int \<Rightarrow> Transform \<Rightarrow> string \<Rightarrow> string \<Rightarrow> event list" where
  "PublishFrameTransform ext invert stamp' tf target source =
     (if \<not> invert then [Ev_SendTransform stamp' tf target source]
      else [Ev_SendTransform stamp' (transform_inverse ext tf) source target])"

datatype flow = Proceed | Return

text \<open>
  The block under \<open>vo_status == CUVSLAM_SUCCESS\<close> once both poses are known: transforms,
  caches, and one block per publisher, in the order of the source.
\<close>

definition publish_poses ::
  "VisualSlamNode \<Rightarrow> externals \<Rightarrow> tick_env \<Rightarrow> int \<Rightarrow> int \<Rightarrow> Transform \<Rightarrow> Transform
   \<Rightarrow> VisualSlamImpl \<Rightarrow> VisualSlamImpl \<times> event list" where
  "publish_poses node ext env latest_ts timestamp_output odom_pose_base_link
       cv_map_pose_cv_base_link s =
     (let map_pose_base_link = ChangeBasis ext (canonical_pose_cuvslam ext) cv_map_pose_cv_base_link;
          map_pose_odom = transform_mul ext map_pose_base_link
                            (transform_inverse ext odom_pose_base_link);
          ev_tf1 = (if publish_map_to_odom_tf node
                    then PublishFrameTransform ext (invert_map_to_odom_tf node) timestamp_output
                           map_pose_odom (map_frame node) (odom_frame node)
                    else []);
          ev_tf2 = (if publish_odom_to_base_tf node
                    then PublishFrameTransform ext (invert_odom_to_base_tf node) timestamp_output
                           odom_pose_base_link (odom_frame node) (base_frame node)
                    else []);
          s1 = s\<lparr>pose_cache := PoseCache_Add (pose_cache_capacity ext)
                                 (latest_ts, odom_pose_base_link) (pose_cache s)\<rparr>;
          velocity = PoseCache_GetVelocity ext (pose_cache s1);
          s2 = s1\<lparr>velocity_cache := PoseCache_Add (velocity_cache_capacity ext) velocity
                                       (velocity_cache s1)\<rparr>;
          vo_pose = toMsg ext odom_pose_base_link;
          header_odom = \<lparr>stamp = timestamp_output, frame_id = odom_frame node\<rparr>;
          slam_pose = toMsg ext map_pose_base_link;
          header_map = \<lparr>stamp = timestamp_output, frame_id = map_frame node\<rparr>;
          ev_pose = (if HasSubscribers env tracking_vo_pose_pub
                     then [Ev_Publish tracking_vo_pose_pub
                             (Msg_PoseStamped \<lparr>ps_header = header_odom, ps_pose = vo_pose\<rparr>)]
                     else []);
          ev_cov = (if HasSubscribers env tracking_vo_pose_covariance_pub
                    then [Ev_Publish tracking_vo_pose_covariance_pub
                            (Msg_PoseWithCovarianceStamped header_odom vo_pose
                               (copy_covariance
                                  (FromcuVSLAMCovariance ext
                                     (estimate_covariance (TrackGpuMem_estimate env)))))]
                    else []);
          ev_odom = (if HasSubscribers env tracking_odometry_pub
                     then [Ev_Publish tracking_odometry_pub
                             (Msg_Odometry
                                (tracking_odometry node ext header_odom vo_pose velocity
                                   (pose_cache s2) (velocity_cache s2)))]
                     else []);
          ev_vel = (if HasSubscribers env vis_vo_velocity_pub
                    then PublishOdometryVelocity ext timestamp_output (base_frame node) s2
                    else []);
          ev_slam = (if HasSubscribers env vis_slam_odometry_pub
                     then [Ev_Publish vis_slam_odometry_pub
                             (Msg_Odometry
                                \<lparr>odom_header = header_map, odom_child_frame_id = base_frame node,
                                 odom_pose = slam_pose, odom_pose_covariance = replicate 36 0,
                                 odom_twist = replicate 6 0,
                                 odom_twist_covariance = replicate 36 0\<rparr>)]
                     else []);
          s3 = (if HasSubscribers env tracking_vo_path_pub
                then s2\<lparr>vo_path := LimitedVector_add_pose ext
                                      \<lparr>ps_header = header_odom, ps_pose = vo_pose\<rparr> (vo_path s2)\<rparr>
                else s2);
          ev_vo_path = (if HasSubscribers env tracking_vo_path_pub
                        then [Ev_Publish tracking_vo_path_pub (Msg_Path header_odom (vo_path s3))]
                        else []);
          s4 = (if HasSubscribers env tracking_slam_path_pub
                then s3\<lparr>slam_path := LimitedVector_add_pose ext
                                        \<lparr>ps_header = header_map, ps_pose = slam_pose\<rparr>
                                        (slam_path s3)\<rparr>
                else s3);
          ev_slam_path = (if HasSubscribers env tracking_slam_path_pub
                          then [Ev_Publish tracking_slam_path_pub
                                  (Msg_Path header_map (slam_path s4))]
                          else []);
          ev_gravity = (if HasSubscribers env vis_gravity_pub \<and> enable_imu_fusion node
                        then PublishGravity ext env timestamp_output (base_frame node)
                        else [])
      in (s4, ev_tf1 @ ev_tf2 @ ev_pose @ ev_cov @ ev_odom @ ev_vel @ ev_slam
              @ ev_vo_path @ ev_slam_path @ ev_gravity))"

text \<open>
  The whole block under \<open>vo_status == CUVSLAM_SUCCESS\<close>, with its two early returns
  (ground constraint, SLAM pose).
\<close>

definition UpdatePose_success ::
  "VisualSlamNode \<Rightarrow> externals \<Rightarrow> tick_env \<Rightarrow> int \<Rightarrow> int \<Rightarrow> VisualSlamImpl
   \<Rightarrow> flow \<times> VisualSlamImpl \<times> event list" where
  "UpdatePose_success node ext env latest_ts timestamp_output s =
     (let (ground_ok, vo_pose_estimate, ev_ground) =
            (case ground_constraint_handle s of
               None \<Rightarrow> (True, estimate_pose (TrackGpuMem_estimate env), [])
             | Some g \<Rightarrow> PoseToGround env (estimate_pose (TrackGpuMem_estimate env)))
      in if \<not> ground_ok then
           (Return, s, ev_ground @ [Ev_Log WARN ''Unknown ground constraint Error %d''])
         else
           let cv_odom_pose_cv_base_link = FromcuVSLAMPose ext vo_pose_estimate;
               odom_pose_base_link =
                 ChangeBasis ext (canonical_pose_cuvslam ext) cv_odom_pose_cv_base_link
           in if enable_localization_n_mapping node then
                (if fst (GetSlamPose_result env) \<noteq> CUVSLAM_SUCCESS then
                   (Return, s,
                    ev_ground @ [Ev_GetSlamPose, Ev_Log WARN ''Get Slam Pose Error %d''])
                 else
                   let (s', evs) = publish_poses node ext env latest_ts timestamp_output
                                     odom_pose_base_link
                                     (FromcuVSLAMPose ext (snd (GetSlamPose_result env))) s
                   in (Proceed, s', ev_ground @ [Ev_GetSlamPose] @ evs))
              else
                let (s', evs) = publish_poses node ext env latest_ts timestamp_output
                                  odom_pose_base_link cv_odom_pose_cv_base_link s
                in (Proceed, s', ev_ground @ evs))"

text \<open>
  The tail of the tick: execution-time statistics, status, diagnostics, and the
  assignment of \<open>last_track_ts\<close>.
\<close>

definition UpdatePose_statistics ::
  "VisualSlamNode \<Rightarrow> externals \<Rightarrow> tick_env \<Rightarrow> CUVSLAM_Status \<Rightarrow> int \<Rightarrow> int \<Rightarrow> VisualSlamImpl
   \<Rightarrow> VisualSlamImpl \<times> event list" where
  "UpdatePose_statistics node ext env vo_status timestamp_output latest_ts s =
     (let track_execution_time = stopwatch_track_seconds env;
          s1 = s\<lparr>track_execution_times :=
                   LimitedVector_add_time ext track_execution_time (track_execution_times s)\<rparr>;
          vals = track_execution_times s1;
          track_execution_time_max = foldl max 0 vals;
          total = foldl (+) 0 vals;
          track_execution_time_mean = (if vals \<noteq> [] then total / real (length vals) else total);
          header = \<lparr>stamp = timestamp_output, frame_id = map_frame node\<rparr>;
          ev_status = (if HasSubscribers env visual_slam_status_pub
                       then [Ev_Publish visual_slam_status_pub
                               (Msg_VisualSlamStatus header
                                  (if vo_status = CUVSLAM_SUCCESS then 1 else 2)
                                  (stopwatch_seconds env) track_execution_time
                                  track_execution_time_max track_execution_time_mean)]
                       else []);
          ev_diag = (if HasSubscribers env diagnostics_pub
                     then [Ev_Publish diagnostics_pub
                             (Msg_DiagnosticArray header
                                (if vo_status = CUVSLAM_SUCCESS then Level_OK else Level_WARN)
                                [(''vo_status'', Value_status vo_status),
                                 (''track_execution_time'', Value_double track_execution_time),
                                 (''track_execution_time_max'',
                                  Value_double track_execution_time_max),
                                 (''track_execution_time_mean'',
                                  Value_double track_execution_time_mean),
                                 (''localized_in_exist_map'',
                                  Value_string (if localized_in_exist_map s1
                                                then ''Yes'' else ''No''))])]
                     else [])
      in (s1\<lparr>last_track_ts := latest_ts\<rparr>, ev_status @ ev_diag))"

subsection \<open>\<open>UpdatePose\<close>\<close>

text \<open>
  One tick. The result is \<open>None\<close> only for an empty image vector, which the source
  excludes by assumption. Otherwise it is the new state and the events in the order the
  source produces them: the localization check, the jitter warning, one engine call per
  IMU message, the single tracking call, and then what the status selects. A completion
  handler the engine runs while it is inside one of these calls is a step of its own
  (\<open>SaveToSlamDbResponse\<close>, \<open>LocalizeInExistDbResponse\<close>).
\<close>

definition UpdatePose ::
  "VisualSlamNode \<Rightarrow> externals \<Rightarrow> tick_env \<Rightarrow> ImuType list \<Rightarrow> (int \<times> ImageType) list
   \<Rightarrow> VisualSlamImpl \<Rightarrow> (VisualSlamImpl \<times> event list) option" where
  "UpdatePose node ext env imu_msgs idx_and_image_msgs s =
     (let (s0, ev_check) = CheckLocalizationStatus s
      in case latest_image_stamp idx_and_image_msgs of
           None \<Rightarrow> None
         | Some latest_ts \<Rightarrow>
             let time_delta_ms = real_of_int (latest_ts - last_track_ts s0) / 1000000;
                 ev_jitter =
                   [Ev_Log DEBUG ''Using image msg timestamp [%ld]'']
                   @ (if time_delta_ms > image_jitter_threshold_ms node \<and> last_track_ts s0 \<noteq> - 1
                      then [Ev_Log WARN ''Delta between current and previous frame [%f ms] is above threshold [%f ms]'']
                      else []);
                 ev_imu = register_imu_measurements env latest_ts 0 imu_msgs;
                 mask_msgs = extract_masks (num_cameras node) idx_and_image_msgs Map.empty;
                 cuvslam_images =
                   convert_images (num_cameras node) latest_ts mask_msgs idx_and_image_msgs;
                 vo_status = TrackGpuMem_status env;
                 evs = ev_check @ ev_jitter @ ev_imu @ [Ev_TrackGpuMem cuvslam_images]
             in if vo_status \<noteq> CUVSLAM_TRACKING_LOST \<and> vo_status \<noteq> CUVSLAM_SUCCESS then
                  Some (s0, evs @ [Ev_Log WARN ''Unknown Tracker Error %d''])
                else
                  let (s1, ev_lost) =
                        (if vo_status = CUVSLAM_TRACKING_LOST
                         then (s0\<lparr>pose_cache := PoseCache_Reset (pose_cache s0)\<rparr>,
                               [Ev_Log WARN ''Visual tracking is lost''])
                         else (s0, []));
                      timestamp_output =
                        (if override_publishing_stamp node then clock_now env else latest_ts);
                      (fl, s2, ev_pub) =
                        (if vo_status = CUVSLAM_SUCCESS
                         then UpdatePose_success node ext env latest_ts timestamp_output s1
                         else (Proceed, s1, []))
                  in (case fl of
                        Return \<Rightarrow> Some (s2, evs @ ev_lost @ ev_pub)
                      | Proceed \<Rightarrow>
                          let (s3, ev_stat) =
                                UpdatePose_statistics node ext env vo_status timestamp_output
                                  latest_ts s2
                          in Some (s3, evs @ ev_lost @ ev_pub @ ev_stat)))"

section \<open>Observations on results and event lists\<close>

text \<open>The calls that reach the engine.\<close>

fun is_engine_call :: "event \<Rightarrow> bool" where
  "is_engine_call (Ev_RegisterImuMeasurement ts m) = True"
| "is_engine_call (Ev_TrackGpuMem images) = True"
| "is_engine_call Ev_GetSlamPose = True"
| "is_engine_call (Ev_GroundConstraintAddNextPose p) = True"
| "is_engine_call Ev_GroundConstraintGetPoseOnGround = True"
| "is_engine_call Ev_GetLastGravity = True"
| "is_engine_call (Ev_SaveToSlamDb path c) = True"
| "is_engine_call (Ev_LocalizeInExistDb path p c) = True"
| "is_engine_call Ev_GroundConstraintCreate = True"
| "is_engine_call Ev_CreateTracker = True"
| "is_engine_call (Ev_DestroyTracker h) = True"
| "is_engine_call (Ev_GroundConstraintDestroy g) = True"
| "is_engine_call e = False"

fun is_register_imu :: "event \<Rightarrow> bool" where
  "is_register_imu (Ev_RegisterImuMeasurement ts m) = True"
| "is_register_imu e = False"

fun is_track :: "event \<Rightarrow> bool" where
  "is_track (Ev_TrackGpuMem images) = True"
| "is_track e = False"

text \<open>
  A pose, transform, odometry, path or marker publication: a transform sent to the TF
  tree, or a message on any publisher other than the status and diagnostics ones.
\<close>

fun is_pose_publication :: "event \<Rightarrow> bool" where
  "is_pose_publication (Ev_SendTransform ts tf target source) = True"
| "is_pose_publication (Ev_Publish pub msg) =
     (pub \<noteq> visual_slam_status_pub \<and> pub \<noteq> diagnostics_pub)"
| "is_pose_publication e = False"

fun is_publication :: "event \<Rightarrow> bool" where
  "is_publication (Ev_SendTransform ts tf target source) = True"
| "is_publication (Ev_Publish pub msg) = True"
| "is_publication e = False"

text \<open>The events of a tick.\<close>

definition tick_events :: "(VisualSlamImpl \<times> event list) option \<Rightarrow> event list" where
  "tick_events r = (case r of None \<Rightarrow> [] | Some (s', evs) \<Rightarrow> evs)"

text \<open>The odometry messages sent on \<open>tracking_odometry_pub_\<close>, in order.\<close>

fun published_odometry :: "event list \<Rightarrow> OdometryType list" where
  "published_odometry [] = []"
| "published_odometry (Ev_Publish pub (Msg_Odometry odom) # evs) =
     (if pub = tracking_odometry_pub then odom # published_odometry evs
      else published_odometry evs)"
| "published_odometry (e # evs) = published_odometry evs"

text \<open>\<open>wait_for(0)\<close> on the stored localization future says ready.\<close>

definition localization_ready :: "VisualSlamImpl \<Rightarrow> bool" where
  "localization_ready s =
     (case localization_future s of None \<Rightarrow> False | Some f \<Rightarrow> f \<noteq> future_not_ready)"

text \<open>\<open>Initialize\<close> was entered on a tracker not yet initialized: its first log line.\<close>

definition initialization_attempted :: "event list \<Rightarrow> bool" where
  "initialization_attempted evs = (Ev_Log INFO ''Initializing cuVSLAM.'' \<in> set evs)"

text \<open>
  The readiness condition in the words of the specification: one camera-info message for
  each configured camera, and an IMU message if IMU fusion is enabled.
\<close>

definition all_sensors_arrived :: "VisualSlamNode \<Rightarrow> VisualSlamImpl \<Rightarrow> bool" where
  "all_sensors_arrived node s =
     ((\<forall>i \<in> set [0..<num_cameras node].
          map_of (initial_camera_info_messages s) (int i) \<noteq> None)
      \<and> (enable_imu_fusion node \<longrightarrow> initial_imu_message s \<noteq> None))"

text \<open>The camera-info map holds one entry per key, for camera indices only.\<close>

definition camera_infos_wf :: "VisualSlamNode \<Rightarrow> VisualSlamImpl \<Rightarrow> bool" where
  "camera_infos_wf node s =
     (distinct (map fst (initial_camera_info_messages s))
      \<and> (\<forall>k \<in> set (map fst (initial_camera_info_messages s)).
            0 \<le> k \<and> k < int (num_cameras node)))"

text \<open>The 6x6 identity matrix, row by row.\<close>

definition identity_6x6 :: "real list" where
  "identity_6x6 = map (\<lambda>k. if k div 6 = k mod 6 then 1 else 0) [0..<36]"

text \<open>The shared state behind the future a command returned, at the moment of return.\<close>

definition future_at_return ::
  "exn + (VisualSlamImpl \<times> event list \<times> nat) \<Rightarrow> shared_state option" where
  "future_at_return r =
     (case r of Inl e \<Rightarrow> None | Inr (s', evs, fut) \<Rightarrow> Some (shared_states s' fut))"

text \<open>
  A caller enters \<open>SaveMap\<close> and blocks on its future; \<open>Exit\<close> runs; the caller looks at
  its future again. \<open>Some None\<close>: the caller is still blocked.
\<close>

definition SaveMap_then_Exit ::
  "VisualSlamNode \<Rightarrow> engine_reply \<Rightarrow> string \<Rightarrow> VisualSlamImpl
   \<Rightarrow> (event list \<times> CUVSLAM_Status) option option" where
  "SaveMap_then_Exit node eng map_folder_path s =
     (case SaveMap_issue node eng map_folder_path s of
        Inr (s1, evs, Waiting context) \<Rightarrow> Some (SaveMap_get context (fst (Exit s1)))
      | _ \<Rightarrow> None)"

subsection \<open>Concrete inputs\<close>

text \<open>
  The members as the constructor leaves them: no handles, empty containers,
  \<open>last_track_ts = -1\<close>, and the default-constructed context with its promise at address 0.
\<close>

definition constructed :: VisualSlamImpl where
  "constructed =
     \<lparr>cuvslam_handle = None, ground_constraint_handle = None,
      initial_imu_message = None, initial_camera_info_messages = [],
      pose_cache = [], velocity_cache = [], vo_path = [], slam_path = [],
      track_execution_times = [], last_track_ts = - 1,
      localized_in_exist_map = False, localization_future = None,
      localize_in_exist_db_context = \<lparr>response_promise = 0, pose_storage = None\<rparr>,
      shared_states = (\<lambda>a. NotReady), next_address = 1\<rparr>"

definition stereo_node :: VisualSlamNode where
  "stereo_node =
     \<lparr>enable_imu_fusion = True, num_cameras = 2, image_jitter_threshold_ms = 34,
      override_publishing_stamp = False, enable_localization_n_mapping = True,
      enable_ground_constraint_in_odometry = False, enable_slam_visualization = False,
      localize_on_startup = False, load_map_folder_path = ''/maps/a'',
      publish_map_to_odom_tf = True, invert_map_to_odom_tf = False,
      publish_odom_to_base_tf = True, invert_odom_to_base_tf = False,
      map_frame = ''map'', odom_frame = ''odom'', base_frame = ''base_link''\<rparr>"

definition map_folder :: fs_view where
  "map_folder =
     \<lparr>is_directory = (\<lambda>path. path = ''/maps/a'' \<or> path = ''/maps/empty''),
      directory_iterator =
        (\<lambda>path. if path = ''/maps/a''
                 then [\<lparr>is_regular_file = True, extension = ''.txt''\<rparr>,
                       \<lparr>is_regular_file = True, extension = ''.mdb''\<rparr>]
                 else [])\<rparr>"

definition imu_sample :: "int \<Rightarrow> ImuType" where
  "imu_sample ts = \<lparr>imu_stamp = ts, imu_frame_id = ''imu'', imu_data = [0, 0, 0, 0, 0, 981 / 100]\<rparr>"

definition camera_info :: "int \<Rightarrow> CameraInfoType" where
  "camera_info ts =
     \<lparr>info_stamp = ts, info_frame_id = ''camera'', info_width = 640, info_height = 480\<rparr>"

definition frame_at :: "int \<Rightarrow> ImageType" where
  "frame_at ts = \<lparr>image_stamp = ts, image_buffer = 0\<rparr>"

definition tracker_ok :: init_env where
  "tracker_ok =
     \<lparr>GroundConstraintCreate_result = (CUVSLAM_SUCCESS, 7), rig_setup_throws = None,
      CreateTracker_result = (CUVSLAM_SUCCESS, 1)\<rparr>"

text \<open>
  Helpers that leave every array as it is and caches that report a covariance once they
  hold two samples.
\<close>

definition plain_externals :: externals where
  "plain_externals =
     \<lparr>FromcuVSLAMPose = (\<lambda>p. p), ChangeBasis = (\<lambda>b p. p), canonical_pose_cuvslam = [],
      transform_mul = (\<lambda>a b. a), transform_inverse = (\<lambda>a. a), transform_apply = (\<lambda>a v. v),
      toMsg = (\<lambda>p. p), FromcuVSLAMCovariance = (\<lambda>c. c),
      pose_cache_capacity = 10, velocity_cache_capacity = 10,
      PoseCache_GetVelocity = (\<lambda>samples. replicate 6 0),
      PoseCache_GetCovariance = (\<lambda>samples c. (2 \<le> length samples, map (\<lambda>x. 5) c)),
      VelocityCache_GetCovariance = (\<lambda>samples c. (2 \<le> length samples, map (\<lambda>x. 3) c)),
      LimitedVector_add_pose = (\<lambda>x xs. xs @ [x]),
      LimitedVector_add_time = (\<lambda>x xs. xs @ [x])\<rparr>"

definition tick_with :: "CUVSLAM_Status \<Rightarrow> tick_env" where
  "tick_with st =
     \<lparr>RegisterImuMeasurement_status = (\<lambda>k. CUVSLAM_SUCCESS),
      TrackGpuMem_status = st,
      TrackGpuMem_estimate = \<lparr>estimate_pose = [], estimate_covariance = replicate 36 0\<rparr>,
      AddNextPose_status = CUVSLAM_SUCCESS,
      GetPoseOnGround_result = (CUVSLAM_SUCCESS, []),
      GetSlamPose_result = (CUVSLAM_SUCCESS, []),
      GetLastGravity_result = (CUVSLAM_SUCCESS, [0, 0, 1]),
      clock_now = 0, stopwatch_track_seconds = 1 / 100, stopwatch_seconds = 2 / 100,
      HasSubscribers = (\<lambda>pub. True)\<rparr>"

text \<open>
  States reached from the constructed one: both camera-info messages seen; then an IMU
  message and one more camera-info message, which initializes the tracker; and a first
  localize command accepted by the engine and not yet completed.
\<close>

definition cameras_seen :: VisualSlamImpl where
  "cameras_seen =
     fst (CallbackCameraInfo stereo_node tracker_ok 1 (camera_info 1)
            (fst (CallbackCameraInfo stereo_node tracker_ok 0 (camera_info 1) constructed)))"

definition tracking :: VisualSlamImpl where
  "tracking =
     fst (CallbackCameraInfo stereo_node tracker_ok 0 (camera_info 3)
            (fst (CallbackImu (imu_sample 2) cameras_seen)))"

definition engine_accepts :: engine_reply where
  "engine_accepts = \<lparr>call_result = CUVSLAM_SUCCESS, completion_in_call = None\<rparr>"


text \<open>
  The tracking state with a localization future stored: still pending, completed with a
  pose, completed without a pose, or holding an exception; a stereo batch at 10 and 11 ns
  with one IMU message; and the state after one successful tick on it.
\<close>

definition awaiting_localization :: VisualSlamImpl where
  "awaiting_localization = tracking\<lparr>localization_future := Some future_not_ready\<rparr>"

definition localization_succeeded :: VisualSlamImpl where
  "localization_succeeded =
     tracking\<lparr>localization_future := Some (future_value (Some [1, 2, 0, 0, 0, 0, 1]))\<rparr>"

definition localization_failed :: VisualSlamImpl where
  "localization_failed = tracking\<lparr>localization_future := Some (future_value None)\<rparr>"

definition localization_threw :: VisualSlamImpl where
  "localization_threw =
     tracking\<lparr>localization_future := Some (future_exception ''broken promise'')\<rparr>"

definition stereo_pair :: "int \<Rightarrow> (int \<times> ImageType) list" where
  "stereo_pair ts = [(0, frame_at ts), (1, frame_at (ts + 1))]"

definition tracked_once :: VisualSlamImpl where
  "tracked_once =
     (case UpdatePose stereo_node plain_externals (tick_with CUVSLAM_SUCCESS) [imu_sample 5]
             (stereo_pair 10) tracking of
        Some (s', evs) \<Rightarrow> s'
      | None \<Rightarrow> tracking)"

section \<open>Facts about the concrete inputs\<close>

lemma cameras_seen_eq:
  "cameras_seen =
     constructed\<lparr>initial_camera_info_messages := [(0, camera_info 1), (1, camera_info 1)]\<rparr>"
  by (simp add: cameras_seen_def CallbackCameraInfo_def IsInitialized_def
      IsReadyForInitialization_def constructed_def stereo_node_def)

lemma tracking_eq:
  "tracking =
     constructed\<lparr>initial_camera_info_messages := [(0, camera_info 3), (1, camera_info 1)],
                 initial_imu_message := Some (imu_sample 2), cuvslam_handle := Some 1\<rparr>"
  by (simp add: tracking_def cameras_seen_eq CallbackCameraInfo_def CallbackImu_def
      IsInitialized_def IsReadyForInitialization_def Initialize_def PoseCache_Reset_def
      constructed_def stereo_node_def tracker_ok_def)


section \<open>The asynchronous commands: results\<close>


text \<open>
  C1, as the code has it. When the engine's initiating call returns a status other than
  success, \<open>SaveMap\<close> returns that status without waiting on its future.
  \<open>CuvslamInternalLocalizeInMapAsync\<close> only logs the status: the future it returns is
  resolved at the moment of return exactly when the engine ran the completion handler
  during the initiating call, and is still not ready otherwise.
\<close>

theorem sync_failure_SaveMap_returns_localize_relies_on_handler:
  assumes "enable_localization_n_mapping node"
    and "call_result eng \<noteq> CUVSLAM_SUCCESS"
    and "is_directory fs map_folder_path"
    and "has_lmdb_files (directory_iterator fs map_folder_path)"
  shows "(\<exists>s' evs. SaveMap_issue node eng map_folder_path s
                     = Inr (s', evs, Returned (call_result eng)))
       \<and> future_at_return
           (CuvslamInternalLocalizeInMapAsync node fs eng map_folder_path pose_hint s)
         = Some (case completion_in_call eng of
                   None \<Rightarrow> NotReady
                 | Some (st, pose_in_db) \<Rightarrow>
                     Ready (LocalizeInExistDb_Response st
                              (if st = CUVSLAM_SUCCESS then pose_in_db else None)))"
proof
  show "\<exists>s' evs. SaveMap_issue node eng map_folder_path s
                   = Inr (s', evs, Returned (call_result eng))"
    using assms(1,2)
    by (auto simp: SaveMap_issue_def SaveToSlamDbResponse_def set_value_def new_promise_def
        Let_def split: option.splits)
next
  show "future_at_return
          (CuvslamInternalLocalizeInMapAsync node fs eng map_folder_path pose_hint s)
        = Some (case completion_in_call eng of
                  None \<Rightarrow> NotReady
                | Some (st, pose_in_db) \<Rightarrow>
                    Ready (LocalizeInExistDb_Response st
                             (if st = CUVSLAM_SUCCESS then pose_in_db else None)))"
    using assms
    by (auto simp: future_at_return_def CuvslamInternalLocalizeInMapAsync_def Let_def
        LocalizeInExistDbResponse_def set_value_def new_promise_def split: option.splits)
qed

theorem sync_failure_witness:
  "enable_localization_n_mapping stereo_node
   \<and> is_directory map_folder ''/maps/a''
   \<and> has_lmdb_files (directory_iterator map_folder ''/maps/a'')
   \<and> (\<exists>s' evs. SaveMap_issue stereo_node
                   \<lparr>call_result = CUVSLAM_GENERIC_ERROR,
                    completion_in_call = Some (CUVSLAM_CAN_NOT_LOCALIZE, None)\<rparr>
                   ''/maps/a'' tracking
                 = Inr (s', evs, Returned CUVSLAM_GENERIC_ERROR))
   \<and> future_at_return
       (CuvslamInternalLocalizeInMapAsync stereo_node map_folder
          \<lparr>call_result = CUVSLAM_GENERIC_ERROR,
           completion_in_call = Some (CUVSLAM_CAN_NOT_LOCALIZE, None)\<rparr>
          ''/maps/a'' [] tracking)
     = Some (Ready (LocalizeInExistDb_Response CUVSLAM_CAN_NOT_LOCALIZE None))"
  using sync_failure_SaveMap_returns_localize_relies_on_handler
          [of stereo_node "\<lparr>call_result = CUVSLAM_GENERIC_ERROR,
                            completion_in_call = Some (CUVSLAM_CAN_NOT_LOCALIZE, None)\<rparr>"
              map_folder "''/maps/a''" tracking "[]"]
  by (simp add: stereo_node_def map_folder_def)

text \<open>
  C1 as stated fails: the engine refuses the localize request (generic error) and does not
  run the handler before returning; the future handed back is not resolved.
\<close>

theorem localize_sync_failure_future_pending:
  "future_at_return
     (CuvslamInternalLocalizeInMapAsync stereo_node map_folder
        \<lparr>call_result = CUVSLAM_GENERIC_ERROR, completion_in_call = None\<rparr>
        ''/maps/a'' [] tracking) = Some NotReady"
  by (simp add: future_at_return_def CuvslamInternalLocalizeInMapAsync_def new_promise_def
      Let_def stereo_node_def map_folder_def tracking_eq constructed_def)

text \<open>
  C2, as the code has it. \<open>Exit\<close> resolves the promise held by
  \<open>localize_in_exist_db_context\<close> with \<open>CUVSLAM_CAN_NOT_LOCALIZE\<close> when it is still pending
  and leaves it as it is when it was resolved before (no error reaches the caller); after
  \<open>Exit\<close> that promise is resolved. \<open>Exit\<close> writes no other shared state.
\<close>

theorem Exit_resolves_localize_promise_only:
  "shared_states (fst (Exit s)) =
     (shared_states s)
       (response_promise (localize_in_exist_db_context s) :=
          (case shared_states s (response_promise (localize_in_exist_db_context s)) of
             NotReady \<Rightarrow> Ready (LocalizeInExistDb_Response CUVSLAM_CAN_NOT_LOCALIZE None)
           | Ready r \<Rightarrow> Ready r))
   \<and> is_ready (fst (Exit s)) (response_promise (localize_in_exist_db_context s))
   \<and> response_promise (localize_in_exist_db_context (fst (Exit s)))
       = response_promise (localize_in_exist_db_context s)"
  by (auto simp: Exit_def set_value_def is_ready_def Let_def split: shared_state.splits)

text \<open>
  C2 as stated fails: a caller blocked inside \<open>SaveMap\<close> (request accepted, handler not yet
  run) is still blocked after \<open>Exit\<close>, since its promise belongs to a context local to
  \<open>SaveMap\<close>.
\<close>

theorem SaveMap_still_blocked_after_Exit:
  "SaveMap_then_Exit stereo_node engine_accepts ''/maps/a'' tracking = Some None"
  by (simp add: SaveMap_then_Exit_def SaveMap_issue_def SaveMap_get_def Exit_def
      set_value_def new_promise_def PoseCache_Reset_def Let_def
      stereo_node_def engine_accepts_def tracking_eq constructed_def)





section \<open>The tracking tick: results\<close>

subsection \<open>The parts of the tick\<close>

lemma latest_image_stamp_Some:
  "idx_and_image_msgs \<noteq> [] \<Longrightarrow> \<exists>latest_ts. latest_image_stamp idx_and_image_msgs = Some latest_ts"
  by (cases idx_and_image_msgs) (simp_all add: latest_image_stamp_def)

lemma check_events_are_logs:
  "snd (CheckLocalizationStatus s) = [] \<or> (\<exists>sev txt. snd (CheckLocalizationStatus s) = [Ev_Log sev txt])"
  by (simp add: CheckLocalizationStatus_def split: option.splits future_state.splits)

lemma check_state:
  "fst (CheckLocalizationStatus s) = s
   \<or> fst (CheckLocalizationStatus s) = s\<lparr>localization_future := None\<rparr>"
  by (simp add: CheckLocalizationStatus_def split: option.splits future_state.splits)

lemma register_imu_filter:
  "filter is_register_imu (register_imu_measurements env latest_ts k imu_msgs)
     = map (Ev_RegisterImuMeasurement latest_ts) imu_msgs"
  by (induction imu_msgs arbitrary: k) simp_all

lemma register_imu_no_track:
  "\<not> list_ex is_track (register_imu_measurements env latest_ts k imu_msgs)"
  by (induction imu_msgs arbitrary: k) simp_all

lemma register_imu_no_publication:
  "\<not> list_ex is_publication (register_imu_measurements env latest_ts k imu_msgs)"
  by (induction imu_msgs arbitrary: k) simp_all

lemma statistics_state:
  "fst (UpdatePose_statistics node ext env vo_status timestamp_output latest_ts s)
     = s\<lparr>track_execution_times :=
            LimitedVector_add_time ext (stopwatch_track_seconds env) (track_execution_times s),
          last_track_ts := latest_ts\<rparr>"
  by (simp add: UpdatePose_statistics_def Let_def)

lemma statistics_events:
  "\<not> list_ex is_pose_publication
       (snd (UpdatePose_statistics node ext env vo_status timestamp_output latest_ts s))
   \<and> \<not> list_ex is_track
       (snd (UpdatePose_statistics node ext env vo_status timestamp_output latest_ts s))
   \<and> \<not> list_ex is_register_imu
       (snd (UpdatePose_statistics node ext env vo_status timestamp_output latest_ts s))"
  by (simp add: UpdatePose_statistics_def Let_def)

lemma publish_poses_state:
  "fst (publish_poses node ext env latest_ts timestamp_output odom_pose_base_link cv_map s)
     = s\<lparr>pose_cache := pose_cache (fst (publish_poses node ext env latest_ts timestamp_output
                                          odom_pose_base_link cv_map s)),
          velocity_cache := velocity_cache (fst (publish_poses node ext env latest_ts
                                                   timestamp_output odom_pose_base_link cv_map s)),
          vo_path := vo_path (fst (publish_poses node ext env latest_ts timestamp_output
                                    odom_pose_base_link cv_map s)),
          slam_path := slam_path (fst (publish_poses node ext env latest_ts timestamp_output
                                        odom_pose_base_link cv_map s))\<rparr>"
  by (simp add: publish_poses_def Let_def)

lemma publish_poses_events:
  "\<not> list_ex is_track
       (snd (publish_poses node ext env latest_ts timestamp_output odom_pose_base_link cv_map s))
   \<and> \<not> list_ex is_register_imu
       (snd (publish_poses node ext env latest_ts timestamp_output odom_pose_base_link cv_map s))"
  by (simp add: publish_poses_def Let_def PublishGravity_def PublishOdometryVelocity_def
      PublishFrameTransform_def)

lemma PoseToGround_events:
  "\<not> list_ex is_publication (snd (snd (PoseToGround env p)))
   \<and> \<not> list_ex is_track (snd (snd (PoseToGround env p)))
   \<and> \<not> list_ex is_register_imu (snd (snd (PoseToGround env p)))"
  by (simp add: PoseToGround_def)

lemma UpdatePose_success_cases:
  obtains (returned) evs where
      "UpdatePose_success node ext env latest_ts timestamp_output s = (Return, s, evs)"
      "\<not> list_ex is_publication evs" "\<not> list_ex is_track evs" "\<not> list_ex is_register_imu evs"
  | (proceeded) base_pose cv_map evs0 where
      "UpdatePose_success node ext env latest_ts timestamp_output s
         = (Proceed,
            fst (publish_poses node ext env latest_ts timestamp_output base_pose cv_map s),
            evs0 @ snd (publish_poses node ext env latest_ts timestamp_output base_pose cv_map s))"
      "\<not> list_ex is_publication evs0" "\<not> list_ex is_track evs0"
      "\<not> list_ex is_register_imu evs0"
proof -
  define g where "g = (case ground_constraint_handle s of
               None \<Rightarrow> (True, estimate_pose (TrackGpuMem_estimate env), [])
             | Some g \<Rightarrow> PoseToGround env (estimate_pose (TrackGpuMem_estimate env)))"
  obtain ground_ok p ev_ground where g: "g = (ground_ok, p, ev_ground)"
    by (cases g) auto
  have evg: "\<not> list_ex is_publication ev_ground \<and> \<not> list_ex is_track ev_ground
             \<and> \<not> list_ex is_register_imu ev_ground"
    using g PoseToGround_events [of env "estimate_pose (TrackGpuMem_estimate env)"]
    by (auto simp: g_def split: option.splits)
  have unf: "UpdatePose_success node ext env latest_ts timestamp_output s =
     (if \<not> ground_ok then
           (Return, s, ev_ground @ [Ev_Log WARN ''Unknown ground constraint Error %d''])
         else
           if enable_localization_n_mapping node then
                (if fst (GetSlamPose_result env) \<noteq> CUVSLAM_SUCCESS then
                   (Return, s,
                    ev_ground @ [Ev_GetSlamPose, Ev_Log WARN ''Get Slam Pose Error %d''])
                 else
                   (Proceed,
                    fst (publish_poses node ext env latest_ts timestamp_output
                           (ChangeBasis ext (canonical_pose_cuvslam ext) (FromcuVSLAMPose ext p))
                           (FromcuVSLAMPose ext (snd (GetSlamPose_result env))) s),
                    (ev_ground @ [Ev_GetSlamPose])
                    @ snd (publish_poses node ext env latest_ts timestamp_output
                           (ChangeBasis ext (canonical_pose_cuvslam ext) (FromcuVSLAMPose ext p))
                           (FromcuVSLAMPose ext (snd (GetSlamPose_result env))) s)))
              else
                (Proceed,
                 fst (publish_poses node ext env latest_ts timestamp_output
                        (ChangeBasis ext (canonical_pose_cuvslam ext) (FromcuVSLAMPose ext p))
                        (FromcuVSLAMPose ext p) s),
                 ev_ground
                 @ snd (publish_poses node ext env latest_ts timestamp_output
                        (ChangeBasis ext (canonical_pose_cuvslam ext) (FromcuVSLAMPose ext p))
                        (FromcuVSLAMPose ext p) s)))"
    using g unfolding UpdatePose_success_def g_def [symmetric]
    by (simp add: Let_def split: prod.splits)
  have ev1: "\<not> list_ex is_publication (ev_ground @ [Ev_Log WARN m])
             \<and> \<not> list_ex is_track (ev_ground @ [Ev_Log WARN m])
             \<and> \<not> list_ex is_register_imu (ev_ground @ [Ev_Log WARN m])" for m
    using evg by (simp add: list_ex_iff)
  have ev2: "\<not> list_ex is_publication (ev_ground @ [Ev_GetSlamPose, Ev_Log WARN m])
             \<and> \<not> list_ex is_track (ev_ground @ [Ev_GetSlamPose, Ev_Log WARN m])
             \<and> \<not> list_ex is_register_imu (ev_ground @ [Ev_GetSlamPose, Ev_Log WARN m])" for m
    using evg by (simp add: list_ex_iff)
  have ev3: "\<not> list_ex is_publication (ev_ground @ [Ev_GetSlamPose])
             \<and> \<not> list_ex is_track (ev_ground @ [Ev_GetSlamPose])
             \<and> \<not> list_ex is_register_imu (ev_ground @ [Ev_GetSlamPose])"
    using evg by (simp add: list_ex_iff)
  show thesis
  proof (cases "\<not> ground_ok")
    case True
    then have "UpdatePose_success node ext env latest_ts timestamp_output s
                 = (Return, s, ev_ground @ [Ev_Log WARN ''Unknown ground constraint Error %d''])"
      using unf by simp
    then show thesis
      by (rule returned) (use ev1 in blast)+
  next
    case ok: False
    show thesis
    proof (cases "enable_localization_n_mapping node")
      case False
      then have "UpdatePose_success node ext env latest_ts timestamp_output s
         = (Proceed,
            fst (publish_poses node ext env latest_ts timestamp_output
                   (ChangeBasis ext (canonical_pose_cuvslam ext) (FromcuVSLAMPose ext p))
                   (FromcuVSLAMPose ext p) s),
            ev_ground
            @ snd (publish_poses node ext env latest_ts timestamp_output
                   (ChangeBasis ext (canonical_pose_cuvslam ext) (FromcuVSLAMPose ext p))
                   (FromcuVSLAMPose ext p) s))"
        using unf ok by simp
      then show thesis
        by (rule proceeded) (use evg in blast)+
    next
      case en: True
      show thesis
      proof (cases "fst (GetSlamPose_result env) \<noteq> CUVSLAM_SUCCESS")
        case True
        then have "UpdatePose_success node ext env latest_ts timestamp_output s
                     = (Return, s,
                        ev_ground @ [Ev_GetSlamPose, Ev_Log WARN ''Get Slam Pose Error %d''])"
          using unf ok en by simp
        then show thesis
          by (rule returned) (use ev2 in blast)+
      next
        case False
        then have "UpdatePose_success node ext env latest_ts timestamp_output s
           = (Proceed,
              fst (publish_poses node ext env latest_ts timestamp_output
                     (ChangeBasis ext (canonical_pose_cuvslam ext) (FromcuVSLAMPose ext p))
                     (FromcuVSLAMPose ext (snd (GetSlamPose_result env))) s),
              (ev_ground @ [Ev_GetSlamPose])
              @ snd (publish_poses node ext env latest_ts timestamp_output
                     (ChangeBasis ext (canonical_pose_cuvslam ext) (FromcuVSLAMPose ext p))
                     (FromcuVSLAMPose ext (snd (GetSlamPose_result env))) s))"
          using unf ok en by simp
        then show thesis
          by (rule proceeded) (use ev3 in blast)+
      qed
    qed
  qed
qed

subsection \<open>The tick, status by status\<close>

lemma UpdatePose_unfold:
  fixes s :: VisualSlamImpl and node env latest_ts imu_msgs idx_and_image_msgs
  assumes stamp: "latest_image_stamp idx_and_image_msgs = Some latest_ts"
  defines "s0 \<equiv> fst (CheckLocalizationStatus s)"
  defines "head \<equiv>
     snd (CheckLocalizationStatus s)
     @ [Ev_Log DEBUG ''Using image msg timestamp [%ld]'']
     @ (if real_of_int (latest_ts - last_track_ts s0) / 1000000 > image_jitter_threshold_ms node
           \<and> last_track_ts s0 \<noteq> - 1
        then [Ev_Log WARN ''Delta between current and previous frame [%f ms] is above threshold [%f ms]'']
        else [])
     @ register_imu_measurements env latest_ts 0 imu_msgs"
  defines "track \<equiv>
     Ev_TrackGpuMem
       (convert_images (num_cameras node) latest_ts
          (extract_masks (num_cameras node) idx_and_image_msgs Map.empty) idx_and_image_msgs)"
  defines "t_out \<equiv> (if override_publishing_stamp node then clock_now env else latest_ts)"
  shows "TrackGpuMem_status env \<noteq> CUVSLAM_TRACKING_LOST \<Longrightarrow>
         TrackGpuMem_status env \<noteq> CUVSLAM_SUCCESS \<Longrightarrow>
         UpdatePose node ext env imu_msgs idx_and_image_msgs s
           = Some (s0, head @ [track] @ [Ev_Log WARN ''Unknown Tracker Error %d''])"
    and "TrackGpuMem_status env = CUVSLAM_TRACKING_LOST \<Longrightarrow>
         UpdatePose node ext env imu_msgs idx_and_image_msgs s
           = Some (fst (UpdatePose_statistics node ext env CUVSLAM_TRACKING_LOST t_out latest_ts
                          (s0\<lparr>pose_cache := PoseCache_Reset (pose_cache s0)\<rparr>)),
                   head @ [track] @ [Ev_Log WARN ''Visual tracking is lost'']
                   @ snd (UpdatePose_statistics node ext env CUVSLAM_TRACKING_LOST t_out latest_ts
                            (s0\<lparr>pose_cache := PoseCache_Reset (pose_cache s0)\<rparr>)))"
    and "TrackGpuMem_status env = CUVSLAM_SUCCESS \<Longrightarrow>
         UpdatePose_success node ext env latest_ts t_out s0 = (Return, s2, ev) \<Longrightarrow>
         UpdatePose node ext env imu_msgs idx_and_image_msgs s = Some (s2, head @ [track] @ ev)"
    and "TrackGpuMem_status env = CUVSLAM_SUCCESS \<Longrightarrow>
         UpdatePose_success node ext env latest_ts t_out s0 = (Proceed, s2, ev) \<Longrightarrow>
         UpdatePose node ext env imu_msgs idx_and_image_msgs s
           = Some (fst (UpdatePose_statistics node ext env CUVSLAM_SUCCESS t_out latest_ts s2),
                   head @ [track] @ ev
                   @ snd (UpdatePose_statistics node ext env CUVSLAM_SUCCESS t_out latest_ts s2))"
  using stamp
  by (simp_all add: UpdatePose_def Let_def split_beta s0_def head_def track_def t_out_def)

lemma tick_head_facts:
  fixes s :: VisualSlamImpl and node env latest_ts imu_msgs
  defines "s0 \<equiv> fst (CheckLocalizationStatus s)"
  defines "head \<equiv>
     snd (CheckLocalizationStatus s)
     @ [Ev_Log DEBUG ''Using image msg timestamp [%ld]'']
     @ (if real_of_int (latest_ts - last_track_ts s0) / 1000000 > image_jitter_threshold_ms node
           \<and> last_track_ts s0 \<noteq> - 1
        then [Ev_Log WARN ''Delta between current and previous frame [%f ms] is above threshold [%f ms]'']
        else [])
     @ register_imu_measurements env latest_ts 0 imu_msgs"
  shows "\<not> list_ex is_track head"
    and "\<not> list_ex is_publication head"
    and "filter is_register_imu head = map (Ev_RegisterImuMeasurement latest_ts) imu_msgs"
  using check_events_are_logs [of s] register_imu_no_track [of env latest_ts 0 imu_msgs]
    register_imu_no_publication [of env latest_ts 0 imu_msgs]
  by (auto simp: head_def list_ex_iff register_imu_filter)

lemma UpdatePose_shape_explicit:
  assumes stamp: "latest_image_stamp idx_and_image_msgs = Some latest_ts"
  shows "\<exists>s' post.
           UpdatePose node ext env imu_msgs idx_and_image_msgs s
             = Some (s',
                     (snd (CheckLocalizationStatus s)
                      @ [Ev_Log DEBUG ''Using image msg timestamp [%ld]'']
                      @ (if real_of_int
                              (latest_ts - last_track_ts (fst (CheckLocalizationStatus s)))
                              / 1000000 > image_jitter_threshold_ms node
                            \<and> last_track_ts (fst (CheckLocalizationStatus s)) \<noteq> - 1
                         then [Ev_Log WARN ''Delta between current and previous frame [%f ms] is above threshold [%f ms]'']
                         else [])
                      @ register_imu_measurements env latest_ts 0 imu_msgs)
                     @ [Ev_TrackGpuMem
                          (convert_images (num_cameras node) latest_ts
                             (extract_masks (num_cameras node) idx_and_image_msgs Map.empty)
                             idx_and_image_msgs)]
                     @ post)
           \<and> localization_future s' = localization_future (fst (CheckLocalizationStatus s))
           \<and> \<not> list_ex is_track post
           \<and> \<not> list_ex is_register_imu post"
proof -
  let ?s0 = "fst (CheckLocalizationStatus s)"
  let ?rest = "[Ev_Log DEBUG ''Using image msg timestamp [%ld]'']
     @ (if real_of_int (latest_ts - last_track_ts ?s0) / 1000000 > image_jitter_threshold_ms node
           \<and> last_track_ts ?s0 \<noteq> - 1
        then [Ev_Log WARN ''Delta between current and previous frame [%f ms] is above threshold [%f ms]'']
        else [])
     @ register_imu_measurements env latest_ts 0 imu_msgs"
  let ?images = "convert_images (num_cameras node) latest_ts
          (extract_masks (num_cameras node) idx_and_image_msgs Map.empty) idx_and_image_msgs"
  let ?t_out = "if override_publishing_stamp node then clock_now env else latest_ts"
  note unf = UpdatePose_unfold [where s = s and node = node and env = env and ext = ext
      and imu_msgs = imu_msgs, OF stamp]
  have concl: ?thesis
    if "UpdatePose node ext env imu_msgs idx_and_image_msgs s
          = Some (s', (snd (CheckLocalizationStatus s) @ ?rest) @ [Ev_TrackGpuMem ?images] @ post)"
      and "localization_future s' = localization_future ?s0"
      and "\<not> list_ex is_track post" and "\<not> list_ex is_register_imu post"
    for s' post
    using that by blast
  consider (other) "TrackGpuMem_status env \<noteq> CUVSLAM_TRACKING_LOST"
      "TrackGpuMem_status env \<noteq> CUVSLAM_SUCCESS"
    | (lost) "TrackGpuMem_status env = CUVSLAM_TRACKING_LOST"
    | (success) "TrackGpuMem_status env = CUVSLAM_SUCCESS"
    by blast
  then show ?thesis
  proof cases
    case other
    show ?thesis
      by (rule concl [OF unf(1) [OF other]]) simp_all
  next
    case lost
    show ?thesis
    proof (rule concl [OF unf(2) [OF lost]])
      show "localization_future
              (fst (UpdatePose_statistics node ext env CUVSLAM_TRACKING_LOST ?t_out latest_ts
                      (?s0\<lparr>pose_cache := PoseCache_Reset (pose_cache ?s0)\<rparr>)))
            = localization_future ?s0"
        by (simp add: statistics_state)
    qed (use statistics_events [of node ext env CUVSLAM_TRACKING_LOST ?t_out latest_ts
              "?s0\<lparr>pose_cache := PoseCache_Reset (pose_cache ?s0)\<rparr>"]
          in \<open>auto simp: list_ex_iff split del: if_split\<close>)
  next
    case success
    show ?thesis
    proof (cases rule: UpdatePose_success_cases [of node ext env latest_ts ?t_out ?s0])
      case (returned evs)
      show ?thesis
        by (rule concl [OF unf(3) [OF success returned(1)]]) (use returned in simp_all)
    next
      case (proceeded base_pose cv_map evs0)
      let ?pp = "publish_poses node ext env latest_ts ?t_out base_pose cv_map ?s0"
      have lf: "localization_future (fst ?pp) = localization_future ?s0"
        by (subst publish_poses_state) simp
      show ?thesis
      proof (rule concl [OF unf(4) [OF success proceeded(1)]])
        show "localization_future
                (fst (UpdatePose_statistics node ext env CUVSLAM_SUCCESS ?t_out latest_ts (fst ?pp)))
              = localization_future ?s0"
          using lf by (simp add: statistics_state)
      qed (use proceeded(3,4)
            publish_poses_events [of node ext env latest_ts ?t_out base_pose cv_map ?s0]
            statistics_events [of node ext env CUVSLAM_SUCCESS ?t_out latest_ts "fst ?pp"]
           in \<open>auto simp: list_ex_iff split del: if_split\<close>)
    qed
  qed
qed

lemma UpdatePose_shape:
  assumes stamp: "latest_image_stamp idx_and_image_msgs = Some latest_ts"
  shows "\<exists>s' rest images post.
           UpdatePose node ext env imu_msgs idx_and_image_msgs s
             = Some (s', (snd (CheckLocalizationStatus s) @ rest) @ [Ev_TrackGpuMem images] @ post)
           \<and> localization_future s' = localization_future (fst (CheckLocalizationStatus s))
           \<and> \<not> list_ex is_track (snd (CheckLocalizationStatus s) @ rest)
           \<and> filter is_register_imu (snd (CheckLocalizationStatus s) @ rest)
               = map (Ev_RegisterImuMeasurement latest_ts) imu_msgs
           \<and> \<not> list_ex is_track post
           \<and> \<not> list_ex is_register_imu post"
  using UpdatePose_shape_explicit [OF stamp, of node ext env imu_msgs s]
    tick_head_facts(1,3) [where s = s and node = node and env = env
      and latest_ts = latest_ts and imu_msgs = imu_msgs]
  by blast

lemma register_imu_engine_calls:
  "filter is_engine_call (register_imu_measurements env latest_ts k imu_msgs)
     = map (Ev_RegisterImuMeasurement latest_ts) imu_msgs"
  by (induction imu_msgs arbitrary: k) simp_all

text \<open>
  C5. \<open>CheckLocalizationStatus\<close> asks the stored future once with a zero wait. With no
  future stored, or one that is not ready, it changes nothing and logs nothing. A ready
  future is read: a pose gives the line \<open>Localization completed successfully\<close>, no pose
  gives \<open>Localization failed\<close>, an exception gives \<open>Localization exception\<close> with its
  text; then the member is cleared. So the member changes if and only if the future was
  ready. The check makes no engine call. Every tick begins with it: the events of the
  check come first, then the engine calls of the tick (the IMU registrations and the
  tracking call on the images of the batch), whether the future was ready or not, and the
  tick ends with the member as the check left it.
\<close>

theorem localization_check_is_a_zero_wait_poll:
  "(localization_future s = None \<or> localization_future s = Some future_not_ready \<longrightarrow>
      CheckLocalizationStatus s = (s, []))
   \<and> (\<forall>p. localization_future s = Some (future_value (Some p)) \<longrightarrow>
          CheckLocalizationStatus s
            = (s\<lparr>localization_future := None\<rparr>,
               [Ev_Log INFO ''Localization completed successfully'']))
   \<and> (localization_future s = Some (future_value None) \<longrightarrow>
          CheckLocalizationStatus s
            = (s\<lparr>localization_future := None\<rparr>, [Ev_Log ERROR ''Localization failed'']))
   \<and> (\<forall>what. localization_future s = Some (future_exception what) \<longrightarrow>
          CheckLocalizationStatus s
            = (s\<lparr>localization_future := None\<rparr>,
               [Ev_Log ERROR (''Localization exception: '' @ what)]))
   \<and> (localization_ready s \<longleftrightarrow>
          (\<exists>f. localization_future s = Some f \<and> f \<noteq> future_not_ready))
   \<and> (localization_ready s \<longleftrightarrow>
          localization_future (fst (CheckLocalizationStatus s)) \<noteq> localization_future s)
   \<and> (localization_ready s \<longrightarrow>
        (\<exists>sev line. CheckLocalizationStatus s
                       = (s\<lparr>localization_future := None\<rparr>, [Ev_Log sev line])))
   \<and> (\<not> localization_ready s \<longrightarrow> CheckLocalizationStatus s = (s, []))
   \<and> \<not> list_ex is_engine_call (snd (CheckLocalizationStatus s))
   \<and> (\<forall>latest_ts. latest_image_stamp idx_and_image_msgs = Some latest_ts \<longrightarrow>
        (\<exists>s' mid post.
           UpdatePose node ext env imu_msgs idx_and_image_msgs s
             = Some (s',
                     snd (CheckLocalizationStatus s) @ mid
                     @ [Ev_TrackGpuMem
                          (convert_images (num_cameras node) latest_ts
                             (extract_masks (num_cameras node) idx_and_image_msgs Map.empty)
                             idx_and_image_msgs)]
                     @ post)
           \<and> filter is_engine_call mid = map (Ev_RegisterImuMeasurement latest_ts) imu_msgs
           \<and> \<not> list_ex is_track post
           \<and> localization_future s' = localization_future (fst (CheckLocalizationStatus s))))
   \<and> (idx_and_image_msgs \<noteq> [] \<longrightarrow>
        (\<exists>s' rest.
           UpdatePose node ext env imu_msgs idx_and_image_msgs s
             = Some (s', snd (CheckLocalizationStatus s) @ rest)
           \<and> localization_future s' = localization_future (fst (CheckLocalizationStatus s))))"
proof -
  have idle: "localization_future s = None \<or> localization_future s = Some future_not_ready \<longrightarrow>
      CheckLocalizationStatus s = (s, [])"
    by (auto simp: CheckLocalizationStatus_def)
  have pose: "\<forall>p. localization_future s = Some (future_value (Some p)) \<longrightarrow>
          CheckLocalizationStatus s
            = (s\<lparr>localization_future := None\<rparr>,
               [Ev_Log INFO ''Localization completed successfully''])"
    by (simp add: CheckLocalizationStatus_def)
  have no_pose: "localization_future s = Some (future_value None) \<longrightarrow>
          CheckLocalizationStatus s
            = (s\<lparr>localization_future := None\<rparr>, [Ev_Log ERROR ''Localization failed''])"
    by (simp add: CheckLocalizationStatus_def)
  have threw: "\<forall>what. localization_future s = Some (future_exception what) \<longrightarrow>
          CheckLocalizationStatus s
            = (s\<lparr>localization_future := None\<rparr>,
               [Ev_Log ERROR (''Localization exception: '' @ what)])"
    by (simp add: CheckLocalizationStatus_def)
  have ready_def: "localization_ready s \<longleftrightarrow>
          (\<exists>f. localization_future s = Some f \<and> f \<noteq> future_not_ready)"
    by (simp add: localization_ready_def split: option.splits)
  have changed: "localization_ready s \<longleftrightarrow>
          localization_future (fst (CheckLocalizationStatus s)) \<noteq> localization_future s"
    by (simp add: localization_ready_def CheckLocalizationStatus_def
        split: option.splits future_state.splits)
  have ready: "localization_ready s \<longrightarrow>
        (\<exists>sev line. CheckLocalizationStatus s
                       = (s\<lparr>localization_future := None\<rparr>, [Ev_Log sev line]))"
    by (auto simp: localization_ready_def CheckLocalizationStatus_def
        split: option.splits future_state.splits)
  have not_ready: "\<not> localization_ready s \<longrightarrow> CheckLocalizationStatus s = (s, [])"
    by (auto simp: localization_ready_def CheckLocalizationStatus_def
        split: option.splits future_state.splits)
  have quiet: "\<not> list_ex is_engine_call (snd (CheckLocalizationStatus s))"
    using check_events_are_logs [of s] by auto
  have tick: "\<forall>latest_ts. latest_image_stamp idx_and_image_msgs = Some latest_ts \<longrightarrow>
        (\<exists>s' mid post.
           UpdatePose node ext env imu_msgs idx_and_image_msgs s
             = Some (s',
                     snd (CheckLocalizationStatus s) @ mid
                     @ [Ev_TrackGpuMem
                          (convert_images (num_cameras node) latest_ts
                             (extract_masks (num_cameras node) idx_and_image_msgs Map.empty)
                             idx_and_image_msgs)]
                     @ post)
           \<and> filter is_engine_call mid = map (Ev_RegisterImuMeasurement latest_ts) imu_msgs
           \<and> \<not> list_ex is_track post
           \<and> localization_future s' = localization_future (fst (CheckLocalizationStatus s)))"
  proof (intro allI impI)
    fix latest_ts
    assume stamp: "latest_image_stamp idx_and_image_msgs = Some latest_ts"
    let ?mid = "[Ev_Log DEBUG ''Using image msg timestamp [%ld]'']
       @ (if real_of_int (latest_ts - last_track_ts (fst (CheckLocalizationStatus s)))
               / 1000000 > image_jitter_threshold_ms node
             \<and> last_track_ts (fst (CheckLocalizationStatus s)) \<noteq> - 1
          then [Ev_Log WARN ''Delta between current and previous frame [%f ms] is above threshold [%f ms]'']
          else [])
       @ register_imu_measurements env latest_ts 0 imu_msgs"
    have mid: "filter is_engine_call ?mid = map (Ev_RegisterImuMeasurement latest_ts) imu_msgs"
      by (simp add: register_imu_engine_calls)
    from UpdatePose_shape_explicit [OF stamp, of node ext env imu_msgs s]
    obtain s' post where
      "UpdatePose node ext env imu_msgs idx_and_image_msgs s
         = Some (s',
                 (snd (CheckLocalizationStatus s) @ ?mid)
                 @ [Ev_TrackGpuMem
                      (convert_images (num_cameras node) latest_ts
                         (extract_masks (num_cameras node) idx_and_image_msgs Map.empty)
                         idx_and_image_msgs)]
                 @ post)"
      and "localization_future s' = localization_future (fst (CheckLocalizationStatus s))"
      and "\<not> list_ex is_track post"
      by blast
    then have "UpdatePose node ext env imu_msgs idx_and_image_msgs s
         = Some (s',
                 snd (CheckLocalizationStatus s) @ ?mid
                 @ [Ev_TrackGpuMem
                      (convert_images (num_cameras node) latest_ts
                         (extract_masks (num_cameras node) idx_and_image_msgs Map.empty)
                         idx_and_image_msgs)]
                 @ post)
         \<and> filter is_engine_call ?mid = map (Ev_RegisterImuMeasurement latest_ts) imu_msgs
         \<and> \<not> list_ex is_track post
         \<and> localization_future s' = localization_future (fst (CheckLocalizationStatus s))"
      using mid by (simp only: append_assoc) simp
    then show "\<exists>s' mid post.
           UpdatePose node ext env imu_msgs idx_and_image_msgs s
             = Some (s',
                     snd (CheckLocalizationStatus s) @ mid
                     @ [Ev_TrackGpuMem
                          (convert_images (num_cameras node) latest_ts
                             (extract_masks (num_cameras node) idx_and_image_msgs Map.empty)
                             idx_and_image_msgs)]
                     @ post)
           \<and> filter is_engine_call mid = map (Ev_RegisterImuMeasurement latest_ts) imu_msgs
           \<and> \<not> list_ex is_track post
           \<and> localization_future s' = localization_future (fst (CheckLocalizationStatus s))"
      by blast
  qed
  have prefix: "idx_and_image_msgs \<noteq> [] \<longrightarrow>
        (\<exists>s' rest.
           UpdatePose node ext env imu_msgs idx_and_image_msgs s
             = Some (s', snd (CheckLocalizationStatus s) @ rest)
           \<and> localization_future s' = localization_future (fst (CheckLocalizationStatus s)))"
  proof
    assume "idx_and_image_msgs \<noteq> []"
    then obtain latest_ts where "latest_image_stamp idx_and_image_msgs = Some latest_ts"
      using latest_image_stamp_Some by blast
    with tick show "\<exists>s' rest.
           UpdatePose node ext env imu_msgs idx_and_image_msgs s
             = Some (s', snd (CheckLocalizationStatus s) @ rest)
           \<and> localization_future s' = localization_future (fst (CheckLocalizationStatus s))"
      by blast
  qed
  from idle pose no_pose threw ready_def changed ready not_ready quiet tick prefix
  show ?thesis
    by (intro conjI)
qed

text \<open>
  C7. In every tick the engine's IMU registration is called once for each inertial
  message of the batch, in order, all of these calls come before the tracking call, and the
  tracking call is made once.
\<close>

theorem imu_registered_once_each_before_the_single_track:
  assumes "latest_image_stamp idx_and_image_msgs = Some latest_ts"
  shows "\<exists>s' pre images post.
           UpdatePose node ext env imu_msgs idx_and_image_msgs s
             = Some (s', pre @ [Ev_TrackGpuMem images] @ post)
           \<and> filter is_register_imu pre = map (Ev_RegisterImuMeasurement latest_ts) imu_msgs
           \<and> \<not> list_ex is_track pre
           \<and> \<not> list_ex is_track post
           \<and> \<not> list_ex is_register_imu post"
  using UpdatePose_shape [OF assms, of node ext env imu_msgs s] by blast

text \<open>
  C6. When the engine reports \<open>CUVSLAM_TRACKING_LOST\<close>, the tick resets the pose cache,
  publishes no pose, transform, odometry, path or marker message, and runs to its end: the
  execution time is added to the statistics, \<open>last_track_ts\<close> becomes the tick's timestamp,
  and the status message goes out when it has a subscriber.
\<close>

theorem tracking_lost_resets_cache_and_finishes_the_tick:
  assumes "TrackGpuMem_status env = CUVSLAM_TRACKING_LOST"
    and "latest_image_stamp idx_and_image_msgs = Some latest_ts"
  shows "\<exists>evs.
           UpdatePose node ext env imu_msgs idx_and_image_msgs s
             = Some ((fst (CheckLocalizationStatus s))
                       \<lparr>pose_cache := [],
                        track_execution_times :=
                          LimitedVector_add_time ext (stopwatch_track_seconds env)
                            (track_execution_times s),
                        last_track_ts := latest_ts\<rparr>, evs)
           \<and> \<not> list_ex is_pose_publication evs
           \<and> (HasSubscribers env visual_slam_status_pub \<longrightarrow>
                (\<exists>msg. Ev_Publish visual_slam_status_pub msg \<in> set evs))"
proof -
  let ?s0 = "fst (CheckLocalizationStatus s)"
  let ?t_out = "if override_publishing_stamp node then clock_now env else latest_ts"
  let ?st = "UpdatePose_statistics node ext env CUVSLAM_TRACKING_LOST ?t_out latest_ts
               (?s0\<lparr>pose_cache := PoseCache_Reset (pose_cache ?s0)\<rparr>)"
  have tet: "track_execution_times ?s0 = track_execution_times s"
    using check_state [of s] by auto
  have head: "\<not> list_ex is_pose_publication (snd (CheckLocalizationStatus s))"
    using check_events_are_logs [of s] by auto
  have imu: "\<not> list_ex is_pose_publication (register_imu_measurements env latest_ts k imu_msgs)"
    for k
    by (induction imu_msgs arbitrary: k) simp_all
  have pub: "HasSubscribers env visual_slam_status_pub \<Longrightarrow>
               \<exists>msg. Ev_Publish visual_slam_status_pub msg \<in> set (snd ?st)"
    by (simp add: UpdatePose_statistics_def Let_def)
  from UpdatePose_unfold(2) [where s = s and node = node and env = env and ext = ext
      and imu_msgs = imu_msgs, OF assms(2) assms(1)]
    statistics_events [of node ext env CUVSLAM_TRACKING_LOST ?t_out latest_ts
      "?s0\<lparr>pose_cache := PoseCache_Reset (pose_cache ?s0)\<rparr>"] head imu [of 0] pub tet
  show ?thesis
    by (auto simp: statistics_state PoseCache_Reset_def list_ex_iff)
qed

text \<open>
  C10. When the engine's tracking status is neither success nor tracking-lost, the tick
  returns right after the warning: the state is the one the localization check left (pose
  cache, statistics and \<open>last_track_ts\<close> as before the tick) and nothing is published, so
  neither the status nor the diagnostics message goes out.
\<close>

theorem unknown_tracker_error_returns_early:
  assumes "TrackGpuMem_status env \<noteq> CUVSLAM_SUCCESS"
    and "TrackGpuMem_status env \<noteq> CUVSLAM_TRACKING_LOST"
    and "latest_image_stamp idx_and_image_msgs = Some latest_ts"
  shows "\<exists>evs.
           UpdatePose node ext env imu_msgs idx_and_image_msgs s
             = Some (fst (CheckLocalizationStatus s), evs)
           \<and> \<not> list_ex is_publication evs
           \<and> last evs = Ev_Log WARN ''Unknown Tracker Error %d''
           \<and> pose_cache (fst (CheckLocalizationStatus s)) = pose_cache s
           \<and> velocity_cache (fst (CheckLocalizationStatus s)) = velocity_cache s
           \<and> track_execution_times (fst (CheckLocalizationStatus s)) = track_execution_times s
           \<and> last_track_ts (fst (CheckLocalizationStatus s)) = last_track_ts s"
proof -
  have frame: "pose_cache (fst (CheckLocalizationStatus s)) = pose_cache s
           \<and> velocity_cache (fst (CheckLocalizationStatus s)) = velocity_cache s
           \<and> track_execution_times (fst (CheckLocalizationStatus s)) = track_execution_times s
           \<and> last_track_ts (fst (CheckLocalizationStatus s)) = last_track_ts s"
    using check_state [of s] by auto
  from UpdatePose_unfold(1) [where s = s and node = node and env = env and ext = ext
      and imu_msgs = imu_msgs, OF assms(3) assms(2) assms(1)]
    tick_head_facts(2) [where s = s and node = node and env = env
      and latest_ts = latest_ts and imu_msgs = imu_msgs] frame
  show ?thesis
    by (auto simp: list_ex_iff)
qed

subsection \<open>The odometry message\<close>

lemma upt_36: "[0..<36] = [0, 1, 2, 3, 4, 5, 6, 7, 8, 9, 10, 11, 12, 13, 14, 15, 16, 17, 18, 19,
    20, 21, 22, 23, 24, 25, 26, 27, 28, 29, 30, 31, 32, 33, 34, 35]"
  by (simp add: upt_rec)

lemma upt_6: "[0..<6] = [0, 1, 2, 3, 4, 5]"
  by (simp add: upt_rec)

lemma set_identity_eq:
  assumes "length c = 36"
  shows "set_identity c = identity_6x6"
proof (rule nth_equalityI)
  show len: "length (set_identity c) = length identity_6x6"
    using assms by (simp add: set_identity_def identity_6x6_def upt_6)
  fix k
  assume "k < length (set_identity c)"
  then have "k \<in> set [0..<36]"
    using len by (simp add: identity_6x6_def)
  moreover have "\<forall>k \<in> set [0..<36]. set_identity c ! k = identity_6x6 ! k"
    unfolding upt_36 using assms
    by (simp add: set_identity_def identity_6x6_def upt_6 upt_36 numeral_2_eq_2)
  ultimately show "set_identity c ! k = identity_6x6 ! k"
    by blast
qed

lemma published_odometry_append:
  "published_odometry (xs @ ys) = published_odometry xs @ published_odometry ys"
  by (induction xs rule: published_odometry.induct) simp_all

lemma published_odometry_none:
  "\<not> list_ex is_publication evs \<Longrightarrow> published_odometry evs = []"
  by (induction evs rule: published_odometry.induct) simp_all

lemma published_odometry_statistics:
  "published_odometry
     (snd (UpdatePose_statistics node ext env vo_status timestamp_output latest_ts s)) = []"
  by (simp add: UpdatePose_statistics_def Let_def)

lemma published_odometry_publish_poses:
  "published_odometry
     (snd (publish_poses node ext env latest_ts timestamp_output base_pose cv_map s))
   = (if HasSubscribers env tracking_odometry_pub
      then [tracking_odometry node ext \<lparr>stamp = timestamp_output, frame_id = odom_frame node\<rparr>
              (toMsg ext base_pose)
              (PoseCache_GetVelocity ext
                 (pose_cache (fst (publish_poses node ext env latest_ts timestamp_output
                                     base_pose cv_map s))))
              (pose_cache (fst (publish_poses node ext env latest_ts timestamp_output
                                  base_pose cv_map s)))
              (velocity_cache (fst (publish_poses node ext env latest_ts timestamp_output
                                      base_pose cv_map s)))]
      else [])"
  by (simp add: publish_poses_def Let_def PublishGravity_def PublishOdometryVelocity_def
      PublishFrameTransform_def published_odometry_append)

lemma tracking_odometry_covariances:
  assumes "\<forall>samples c. length (snd (PoseCache_GetCovariance ext samples c)) = length c"
    and "\<forall>samples c. length (snd (VelocityCache_GetCovariance ext samples c)) = length c"
  shows "odom_pose_covariance (tracking_odometry node ext h p v poses velocities)
           = (if fst (PoseCache_GetCovariance ext poses (replicate 36 0))
              then snd (PoseCache_GetCovariance ext poses (replicate 36 0))
              else identity_6x6)"
    and "odom_twist_covariance (tracking_odometry node ext h p v poses velocities)
           = (if fst (VelocityCache_GetCovariance ext velocities (replicate 36 0))
              then snd (VelocityCache_GetCovariance ext velocities (replicate 36 0))
              else identity_6x6)"
proof -
  have "length (snd (PoseCache_GetCovariance ext poses (replicate 36 0))) = 36"
    using assms(1) by simp
  then show "odom_pose_covariance (tracking_odometry node ext h p v poses velocities)
           = (if fst (PoseCache_GetCovariance ext poses (replicate 36 0))
              then snd (PoseCache_GetCovariance ext poses (replicate 36 0))
              else identity_6x6)"
    by (simp add: tracking_odometry_def split_beta Let_def set_identity_eq)
  have "length (snd (VelocityCache_GetCovariance ext velocities (replicate 36 0))) = 36"
    using assms(2) by simp
  then show "odom_twist_covariance (tracking_odometry node ext h p v poses velocities)
           = (if fst (VelocityCache_GetCovariance ext velocities (replicate 36 0))
              then snd (VelocityCache_GetCovariance ext velocities (replicate 36 0))
              else identity_6x6)"
    by (simp add: tracking_odometry_def split_beta Let_def set_identity_eq)
qed

lemma UpdatePose_published_odometry:
  assumes run: "UpdatePose node ext env imu_msgs idx_and_image_msgs s = Some (s', evs)"
  shows "published_odometry evs = []
       \<or> (\<exists>h p v. published_odometry evs
                     = [tracking_odometry node ext h p v (pose_cache s') (velocity_cache s')])"
proof -
  from run obtain latest_ts where stamp: "latest_image_stamp idx_and_image_msgs = Some latest_ts"
    by (cases "latest_image_stamp idx_and_image_msgs")
       (simp_all add: UpdatePose_def split_beta)
  let ?s0 = "fst (CheckLocalizationStatus s)"
  let ?t_out = "if override_publishing_stamp node then clock_now env else latest_ts"
  note unf = UpdatePose_unfold [where s = s and node = node and env = env and ext = ext
      and imu_msgs = imu_msgs, OF stamp]
  note head = tick_head_facts(2) [where s = s and node = node and env = env
      and latest_ts = latest_ts and imu_msgs = imu_msgs, THEN published_odometry_none]
  consider (other) "TrackGpuMem_status env \<noteq> CUVSLAM_TRACKING_LOST"
      "TrackGpuMem_status env \<noteq> CUVSLAM_SUCCESS"
    | (lost) "TrackGpuMem_status env = CUVSLAM_TRACKING_LOST"
    | (success) "TrackGpuMem_status env = CUVSLAM_SUCCESS"
    by blast
  then show ?thesis
  proof cases
    case other
    from unf(1) [OF other] run have "published_odometry evs = []"
      using head by (auto simp: published_odometry_append)
    then show ?thesis ..
  next
    case lost
    from unf(2) [OF lost] run have "published_odometry evs = []"
      using head
      by (auto simp: published_odometry_append published_odometry_statistics
          split del: if_split)
    then show ?thesis ..
  next
    case success
    show ?thesis
    proof (cases rule: UpdatePose_success_cases [of node ext env latest_ts ?t_out ?s0])
      case (returned evs1)
      from unf(3) [OF success returned(1)] run have "published_odometry evs = []"
        using head published_odometry_none [OF returned(2)]
        by (auto simp: published_odometry_append split del: if_split)
      then show ?thesis ..
    next
      case (proceeded base_pose cv_map evs0)
      let ?pp = "publish_poses node ext env latest_ts ?t_out base_pose cv_map ?s0"
      from unf(4) [OF success proceeded(1)] run
      have s': "s' = fst (UpdatePose_statistics node ext env CUVSLAM_SUCCESS ?t_out latest_ts
                            (fst ?pp))"
        and evs: "published_odometry evs = published_odometry (snd ?pp)"
        using head published_odometry_none [OF proceeded(2)]
        by (auto simp: published_odometry_append published_odometry_statistics
            split del: if_split)
      have caches: "pose_cache s' = pose_cache (fst ?pp)"
        "velocity_cache s' = velocity_cache (fst ?pp)"
        by (simp_all add: s' statistics_state)
      show ?thesis
        unfolding evs caches published_odometry_publish_poses
        by (cases "HasSubscribers env tracking_odometry_pub") auto
    qed
  qed
qed

text \<open>
  C8. Every odometry message a tick publishes on \<open>tracking_odometry_pub_\<close> carries, in its
  pose covariance, what the pose cache computed when the cache reports it valid and the 6x6
  identity matrix when the cache reports it unavailable; the same holds for the twist
  covariance and the velocity cache. (The covariance arrays have 36 entries, which
  \<open>GetCovariance\<close> cannot change.)
\<close>

theorem odometry_covariance_is_cache_or_identity:
  assumes "UpdatePose node ext env imu_msgs idx_and_image_msgs s = Some (s', evs)"
    and "odom \<in> set (published_odometry evs)"
    and "\<forall>samples c. length (snd (PoseCache_GetCovariance ext samples c)) = length c"
    and "\<forall>samples c. length (snd (VelocityCache_GetCovariance ext samples c)) = length c"
  shows "odom_pose_covariance odom
           = (if fst (PoseCache_GetCovariance ext (pose_cache s') (replicate 36 0))
              then snd (PoseCache_GetCovariance ext (pose_cache s') (replicate 36 0))
              else identity_6x6)
       \<and> odom_twist_covariance odom
           = (if fst (VelocityCache_GetCovariance ext (velocity_cache s') (replicate 36 0))
              then snd (VelocityCache_GetCovariance ext (velocity_cache s') (replicate 36 0))
              else identity_6x6)"
proof -
  from UpdatePose_published_odometry [OF assms(1)] assms(2)
  obtain h p v where "odom = tracking_odometry node ext h p v (pose_cache s') (velocity_cache s')"
    by auto
  then show ?thesis
    using tracking_odometry_covariances [OF assms(3,4)] by simp
qed

subsection \<open>The tick on the concrete inputs\<close>

lemmas tick_defs =
  UpdatePose_def UpdatePose_success_def UpdatePose_statistics_def publish_poses_def
  CheckLocalizationStatus_def latest_image_stamp_def PoseToGround_def PublishGravity_def
  PublishOdometryVelocity_def PublishFrameTransform_def tracking_odometry_def
  PoseCache_Add_def PoseCache_Reset_def Let_def split_beta

lemmas input_defs =
  stereo_node_def plain_externals_def tick_with_def stereo_pair_def frame_at_def
  imu_sample_def constructed_def

lemma stereo_pair_stamp: "latest_image_stamp (stereo_pair ts) = Some (ts + 1)"
  by (simp add: latest_image_stamp_def stereo_pair_def frame_at_def)

lemma first_tick:
  "UpdatePose stereo_node plain_externals (tick_with CUVSLAM_SUCCESS) [imu_sample 5]
     (stereo_pair 10) tracking
   = Some (tracked_once,
           tick_events (UpdatePose stereo_node plain_externals (tick_with CUVSLAM_SUCCESS)
                          [imu_sample 5] (stereo_pair 10) tracking))"
proof -
  from UpdatePose_shape [OF stereo_pair_stamp]
  obtain s' evs where
    "UpdatePose stereo_node plain_externals (tick_with CUVSLAM_SUCCESS) [imu_sample 5]
       (stereo_pair 10) tracking = Some (s', evs)"
    by blast
  then show ?thesis
    by (simp add: tracked_once_def tick_events_def)
qed

lemma tracked_once_eq:
  "tracked_once =
     tracking\<lparr>pose_cache := [(11, [])], velocity_cache := [[0, 0, 0, 0, 0, 0]],
              vo_path := [\<lparr>ps_header = \<lparr>stamp = 11, frame_id = ''odom''\<rparr>, ps_pose = []\<rparr>],
              slam_path := [\<lparr>ps_header = \<lparr>stamp = 11, frame_id = ''map''\<rparr>, ps_pose = []\<rparr>],
              track_execution_times := [1 / 100], last_track_ts := 11\<rparr>"
  by (simp add: tracked_once_def tracking_eq tick_defs input_defs numeral_eq_Suc)

lemma second_tick:
  "UpdatePose stereo_node plain_externals (tick_with CUVSLAM_SUCCESS) [imu_sample 15]
     (stereo_pair 20) tracked_once
   = Some (tracked_once
             \<lparr>pose_cache := [(11, []), (21, [])],
              velocity_cache := [[0, 0, 0, 0, 0, 0], [0, 0, 0, 0, 0, 0]],
              vo_path := [\<lparr>ps_header = \<lparr>stamp = 11, frame_id = ''odom''\<rparr>, ps_pose = []\<rparr>,
                          \<lparr>ps_header = \<lparr>stamp = 21, frame_id = ''odom''\<rparr>, ps_pose = []\<rparr>],
              slam_path := [\<lparr>ps_header = \<lparr>stamp = 11, frame_id = ''map''\<rparr>, ps_pose = []\<rparr>,
                            \<lparr>ps_header = \<lparr>stamp = 21, frame_id = ''map''\<rparr>, ps_pose = []\<rparr>],
              track_execution_times := [1 / 100, 1 / 100], last_track_ts := 21\<rparr>,
           tick_events (UpdatePose stereo_node plain_externals (tick_with CUVSLAM_SUCCESS)
                          [imu_sample 15] (stereo_pair 20) tracked_once))"
proof -
  from UpdatePose_shape [OF stereo_pair_stamp]
  obtain s' evs where run:
    "UpdatePose stereo_node plain_externals (tick_with CUVSLAM_SUCCESS) [imu_sample 15]
       (stereo_pair 20) tracked_once = Some (s', evs)"
    by blast
  have "map_option fst (UpdatePose stereo_node plain_externals (tick_with CUVSLAM_SUCCESS)
          [imu_sample 15] (stereo_pair 20) tracked_once)
        = Some (tracked_once
             \<lparr>pose_cache := [(11, []), (21, [])],
              velocity_cache := [[0, 0, 0, 0, 0, 0], [0, 0, 0, 0, 0, 0]],
              vo_path := [\<lparr>ps_header = \<lparr>stamp = 11, frame_id = ''odom''\<rparr>, ps_pose = []\<rparr>,
                          \<lparr>ps_header = \<lparr>stamp = 21, frame_id = ''odom''\<rparr>, ps_pose = []\<rparr>],
              slam_path := [\<lparr>ps_header = \<lparr>stamp = 11, frame_id = ''map''\<rparr>, ps_pose = []\<rparr>,
                            \<lparr>ps_header = \<lparr>stamp = 21, frame_id = ''map''\<rparr>, ps_pose = []\<rparr>],
              track_execution_times := [1 / 100, 1 / 100], last_track_ts := 21\<rparr>)"
    by (simp add: tracked_once_eq tracking_eq tick_defs input_defs numeral_eq_Suc)
  with run show ?thesis
    by (simp add: tick_events_def)
qed

lemma first_tick_publishes_odometry:
  "published_odometry
     (tick_events (UpdatePose stereo_node plain_externals (tick_with CUVSLAM_SUCCESS)
                     [imu_sample 5] (stereo_pair 10) tracking)) \<noteq> []"
  by (simp add: tick_events_def tracking_eq tick_defs input_defs published_odometry_append)

lemma second_tick_publishes_odometry:
  "published_odometry
     (tick_events (UpdatePose stereo_node plain_externals (tick_with CUVSLAM_SUCCESS)
                     [imu_sample 15] (stereo_pair 20) tracked_once)) \<noteq> []"
  by (simp add: tick_events_def tracked_once_eq tracking_eq tick_defs input_defs
      published_odometry_append)

theorem odometry_covariance_witness:
  "published_odometry
     (tick_events (UpdatePose stereo_node plain_externals (tick_with CUVSLAM_SUCCESS)
                     [imu_sample 5] (stereo_pair 10) tracking)) \<noteq> []
   \<and> list_all (\<lambda>odom. odom_pose_covariance odom = identity_6x6
                       \<and> odom_twist_covariance odom = identity_6x6)
       (published_odometry
          (tick_events (UpdatePose stereo_node plain_externals (tick_with CUVSLAM_SUCCESS)
                          [imu_sample 5] (stereo_pair 10) tracking)))
   \<and> published_odometry
       (tick_events (UpdatePose stereo_node plain_externals (tick_with CUVSLAM_SUCCESS)
                       [imu_sample 15] (stereo_pair 20) tracked_once)) \<noteq> []
   \<and> list_all (\<lambda>odom. odom_pose_covariance odom = replicate 36 5
                       \<and> odom_twist_covariance odom = replicate 36 3)
       (published_odometry
          (tick_events (UpdatePose stereo_node plain_externals (tick_with CUVSLAM_SUCCESS)
                          [imu_sample 15] (stereo_pair 20) tracked_once)))"
proof -
  have len: "\<forall>samples c. length (snd (PoseCache_GetCovariance plain_externals samples c))
                          = length c"
    "\<forall>samples c. length (snd (VelocityCache_GetCovariance plain_externals samples c))
                   = length c"
    by (simp_all add: plain_externals_def)
  have one: "odom_pose_covariance odom = identity_6x6 \<and> odom_twist_covariance odom = identity_6x6"
    if "odom \<in> set (published_odometry
          (tick_events (UpdatePose stereo_node plain_externals (tick_with CUVSLAM_SUCCESS)
                          [imu_sample 5] (stereo_pair 10) tracking)))" for odom
    using odometry_covariance_is_cache_or_identity [OF first_tick that len]
    by (simp add: tracked_once_eq plain_externals_def)
  have two: "odom_pose_covariance odom = replicate 36 5
             \<and> odom_twist_covariance odom = replicate 36 3"
    if "odom \<in> set (published_odometry
          (tick_events (UpdatePose stereo_node plain_externals (tick_with CUVSLAM_SUCCESS)
                          [imu_sample 15] (stereo_pair 20) tracked_once)))" for odom
    using odometry_covariance_is_cache_or_identity [OF second_tick that len]
    by (simp add: plain_externals_def)
  show ?thesis
    using one two first_tick_publishes_odometry second_tick_publishes_odometry
    by (simp add: list_all_iff)
qed

theorem localization_check_witness:
  "localization_future awaiting_localization = Some future_not_ready
   \<and> \<not> localization_ready awaiting_localization
   \<and> CheckLocalizationStatus awaiting_localization = (awaiting_localization, [])
   \<and> latest_image_stamp (stereo_pair 10) = Some 11
   \<and> (\<exists>s' mid post.
         UpdatePose stereo_node plain_externals (tick_with CUVSLAM_SUCCESS) [imu_sample 5]
           (stereo_pair 10) awaiting_localization
           = Some (s',
                   mid @ [Ev_TrackGpuMem [(0, frame_at 10, 11, None), (1, frame_at 11, 11, None)]]
                   @ post)
         \<and> filter is_engine_call mid = [Ev_RegisterImuMeasurement 11 (imu_sample 5)]
         \<and> localization_future s' = Some future_not_ready)
   \<and> localization_ready localization_succeeded
   \<and> CheckLocalizationStatus localization_succeeded
       = (tracking, [Ev_Log INFO ''Localization completed successfully''])
   \<and> localization_ready localization_failed
   \<and> CheckLocalizationStatus localization_failed
       = (tracking, [Ev_Log ERROR ''Localization failed''])
   \<and> localization_ready localization_threw
   \<and> CheckLocalizationStatus localization_threw
       = (tracking, [Ev_Log ERROR ''Localization exception: broken promise''])"
proof -
  have cleared: "tracking\<lparr>localization_future := None\<rparr> = tracking"
    by (simp add: tracking_eq constructed_def)
  have a: "localization_future awaiting_localization = Some future_not_ready"
    by (simp add: awaiting_localization_def)
  have stamp: "latest_image_stamp (stereo_pair 10) = Some 11"
    by (simp add: stereo_pair_stamp)
  have images: "convert_images (num_cameras stereo_node) 11
                  (extract_masks (num_cameras stereo_node) (stereo_pair 10) Map.empty)
                  (stereo_pair 10)
                = [(0, frame_at 10, 11, None), (1, frame_at 11, 11, None)]"
    by (simp add: stereo_pair_def stereo_node_def)
  note pending = localization_check_is_a_zero_wait_poll
                   [of awaiting_localization "stereo_pair 10" stereo_node plain_externals
                       "tick_with CUVSLAM_SUCCESS" "[imu_sample 5]"]
  from pending a have idle: "\<not> localization_ready awaiting_localization"
    "CheckLocalizationStatus awaiting_localization = (awaiting_localization, [])"
    by auto
  from pending stamp
  have "\<exists>s' mid post.
         UpdatePose stereo_node plain_externals (tick_with CUVSLAM_SUCCESS) [imu_sample 5]
           (stereo_pair 10) awaiting_localization
           = Some (s',
                   snd (CheckLocalizationStatus awaiting_localization) @ mid
                   @ [Ev_TrackGpuMem
                        (convert_images (num_cameras stereo_node) 11
                           (extract_masks (num_cameras stereo_node) (stereo_pair 10) Map.empty)
                           (stereo_pair 10))]
                   @ post)
         \<and> filter is_engine_call mid = map (Ev_RegisterImuMeasurement 11) [imu_sample 5]
         \<and> \<not> list_ex is_track post
         \<and> localization_future s'
             = localization_future (fst (CheckLocalizationStatus awaiting_localization))"
    by blast
  then have tick: "\<exists>s' mid post.
         UpdatePose stereo_node plain_externals (tick_with CUVSLAM_SUCCESS) [imu_sample 5]
           (stereo_pair 10) awaiting_localization
           = Some (s',
                   mid @ [Ev_TrackGpuMem [(0, frame_at 10, 11, None), (1, frame_at 11, 11, None)]]
                   @ post)
         \<and> filter is_engine_call mid = [Ev_RegisterImuMeasurement 11 (imu_sample 5)]
         \<and> localization_future s' = Some future_not_ready"
    unfolding images idle(2) using a by auto
  from localization_check_is_a_zero_wait_poll [of localization_succeeded]
  have ok: "localization_ready localization_succeeded"
    "CheckLocalizationStatus localization_succeeded
       = (tracking, [Ev_Log INFO ''Localization completed successfully''])"
    by (simp_all add: localization_succeeded_def cleared)
  from localization_check_is_a_zero_wait_poll [of localization_failed]
  have failed: "localization_ready localization_failed"
    "CheckLocalizationStatus localization_failed
       = (tracking, [Ev_Log ERROR ''Localization failed''])"
    by (simp_all add: localization_failed_def cleared)
  from localization_check_is_a_zero_wait_poll [of localization_threw]
  have threw: "localization_ready localization_threw"
    "CheckLocalizationStatus localization_threw
       = (tracking, [Ev_Log ERROR ''Localization exception: broken promise''])"
    by (simp_all add: localization_threw_def cleared)
  from a idle stamp tick ok failed threw show ?thesis
    by (intro conjI)
qed

theorem imu_registration_witness:
  "latest_image_stamp (stereo_pair 10) = Some 11
   \<and> (\<exists>s' pre images post.
         UpdatePose stereo_node plain_externals (tick_with CUVSLAM_SUCCESS)
           [imu_sample 5, imu_sample 7] (stereo_pair 10) tracking
           = Some (s', pre @ [Ev_TrackGpuMem images] @ post)
         \<and> filter is_register_imu pre
             = [Ev_RegisterImuMeasurement 11 (imu_sample 5),
                Ev_RegisterImuMeasurement 11 (imu_sample 7)]
         \<and> \<not> list_ex is_track pre
         \<and> \<not> list_ex is_track post
         \<and> \<not> list_ex is_register_imu post)"
proof -
  have h: "latest_image_stamp (stereo_pair 10) = Some 11"
    by (simp add: stereo_pair_stamp)
  from imu_registered_once_each_before_the_single_track
         [OF h, of stereo_node plain_externals "tick_with CUVSLAM_SUCCESS"
             "[imu_sample 5, imu_sample 7]" tracking] h
  show ?thesis
    by simp
qed

theorem tracking_lost_witness:
  "TrackGpuMem_status (tick_with CUVSLAM_TRACKING_LOST) = CUVSLAM_TRACKING_LOST
   \<and> latest_image_stamp (stereo_pair 20) = Some 21
   \<and> pose_cache tracked_once = [(11, [])]
   \<and> (\<exists>evs.
         UpdatePose stereo_node plain_externals (tick_with CUVSLAM_TRACKING_LOST)
           [imu_sample 15] (stereo_pair 20) tracked_once
           = Some (tracked_once\<lparr>pose_cache := [],
                                track_execution_times := [1 / 100, 1 / 100],
                                last_track_ts := 21\<rparr>, evs)
         \<and> \<not> list_ex is_pose_publication evs)"
proof -
  have h1: "TrackGpuMem_status (tick_with CUVSLAM_TRACKING_LOST) = CUVSLAM_TRACKING_LOST"
    by (simp add: tick_with_def)
  have h2: "latest_image_stamp (stereo_pair 20) = Some 21"
    by (simp add: stereo_pair_stamp)
  have chk: "fst (CheckLocalizationStatus tracked_once) = tracked_once"
    by (simp add: CheckLocalizationStatus_def tracked_once_eq tracking_eq constructed_def)
  from tracking_lost_resets_cache_and_finishes_the_tick
         [OF h1 h2, of stereo_node plain_externals "[imu_sample 15]" tracked_once]
  obtain evs where
    "UpdatePose stereo_node plain_externals (tick_with CUVSLAM_TRACKING_LOST)
       [imu_sample 15] (stereo_pair 20) tracked_once
     = Some ((fst (CheckLocalizationStatus tracked_once))
               \<lparr>pose_cache := [],
                track_execution_times :=
                  LimitedVector_add_time plain_externals
                    (stopwatch_track_seconds (tick_with CUVSLAM_TRACKING_LOST))
                    (track_execution_times tracked_once),
                last_track_ts := 21\<rparr>, evs)"
    and "\<not> list_ex is_pose_publication evs"
    by blast
  then have "UpdatePose stereo_node plain_externals (tick_with CUVSLAM_TRACKING_LOST)
       [imu_sample 15] (stereo_pair 20) tracked_once
     = Some (tracked_once\<lparr>pose_cache := [],
                          track_execution_times := [1 / 100, 1 / 100],
                          last_track_ts := 21\<rparr>, evs)
     \<and> \<not> list_ex is_pose_publication evs"
    unfolding chk by (simp add: plain_externals_def tick_with_def tracked_once_eq)
  then show ?thesis
    using h1 h2 by (auto simp: tracked_once_eq)
qed

theorem unknown_tracker_error_witness:
  "TrackGpuMem_status (tick_with CUVSLAM_GENERIC_ERROR) \<noteq> CUVSLAM_SUCCESS
   \<and> TrackGpuMem_status (tick_with CUVSLAM_GENERIC_ERROR) \<noteq> CUVSLAM_TRACKING_LOST
   \<and> latest_image_stamp (stereo_pair 20) = Some 21
   \<and> (\<exists>evs.
         UpdatePose stereo_node plain_externals (tick_with CUVSLAM_GENERIC_ERROR)
           [imu_sample 15] (stereo_pair 20) tracked_once = Some (tracked_once, evs)
         \<and> \<not> list_ex is_publication evs)
   \<and> last_track_ts tracked_once = 11"
proof -
  have h1: "TrackGpuMem_status (tick_with CUVSLAM_GENERIC_ERROR) \<noteq> CUVSLAM_SUCCESS"
    and h2: "TrackGpuMem_status (tick_with CUVSLAM_GENERIC_ERROR) \<noteq> CUVSLAM_TRACKING_LOST"
    by (simp_all add: tick_with_def)
  have h3: "latest_image_stamp (stereo_pair 20) = Some 21"
    by (simp add: stereo_pair_stamp)
  have chk: "fst (CheckLocalizationStatus tracked_once) = tracked_once"
    by (simp add: CheckLocalizationStatus_def tracked_once_eq tracking_eq constructed_def)
  from unknown_tracker_error_returns_early
         [OF h1 h2 h3, of stereo_node plain_externals "[imu_sample 15]" tracked_once]
  have "\<exists>evs.
         UpdatePose stereo_node plain_externals (tick_with CUVSLAM_GENERIC_ERROR)
           [imu_sample 15] (stereo_pair 20) tracked_once = Some (tracked_once, evs)
         \<and> \<not> list_ex is_publication evs"
    unfolding chk by blast
  then show ?thesis
    using h1 h2 h3 by (simp add: tracked_once_eq)
qed

section \<open>Before initialization: results\<close>

lemma size_eq_num_cameras_iff:
  assumes dist: "distinct (map fst al)"
    and range: "\<forall>k \<in> set (map fst al). 0 \<le> k \<and> k < int n"
  shows "length al = n \<longleftrightarrow> (\<forall>i \<in> set [0..<n]. map_of al (int i) \<noteq> None)"
proof -
  let ?K = "set (map fst al)"
  have card_K: "card ?K = length al"
    using distinct_card [OF dist] by simp
  have sub: "?K \<subseteq> int ` {0..<n}"
  proof
    fix k assume "k \<in> ?K"
    with range have "0 \<le> k" "k < int n" by auto
    then have "k = int (nat k)" "nat k < n" by auto
    then show "k \<in> int ` {0..<n}" by (metis atLeastLessThan_iff image_eqI le0)
  qed
  have card_n: "card (int ` {0..<n}) = n"
    by (simp add: card_image)
  have present: "map_of al k \<noteq> None \<longleftrightarrow> k \<in> ?K" for k
    by (simp add: map_of_eq_None_iff)
  show ?thesis
  proof
    assume "length al = n"
    with card_K card_n have "card ?K = card (int ` {0..<n})" by simp
    with sub have "?K = int ` {0..<n}"
      by (simp add: card_subset_eq)
    then show "\<forall>i \<in> set [0..<n]. map_of al (int i) \<noteq> None"
      using present by auto
  next
    assume "\<forall>i \<in> set [0..<n]. map_of al (int i) \<noteq> None"
    then have "int ` {0..<n} \<subseteq> ?K"
      using present by auto
    with sub have "?K = int ` {0..<n}" by blast
    with card_K card_n show "length al = n" by simp
  qed
qed

lemma camera_infos_wf_update:
  assumes "camera_infos_wf node s" and "0 \<le> index" and "index < int (num_cameras node)"
  shows "camera_infos_wf node
           (s\<lparr>initial_camera_info_messages :=
                AList.update index info (initial_camera_info_messages s)\<rparr>)"
  using assms
  by (auto simp: camera_infos_wf_def distinct_update update_keys)

lemma Initialize_attempted:
  "\<not> IsInitialized s \<Longrightarrow> initialization_attempted (fst (snd (Initialize node ienv s)))"
  by (simp add: Initialize_def initialization_attempted_def Let_def split: option.splits)

text \<open>
  C9, as the code has it. While the tracker is not initialized, a camera frame is dropped
  (nothing is buffered, the synchronizer is not called) and an IMU message is only stored
  as the initial sample, replacing the one before (the sequencer is not called, and
  initialization is not attempted). Initialization is attempted inside a camera-info
  callback only: exactly when, with that message stored, there is one camera-info message
  for each configured camera and, if IMU fusion is enabled, an IMU message has been stored.
\<close>

theorem before_initialization_only_camera_info_triggers_Initialize:
  assumes "\<not> IsInitialized s"
    and "camera_infos_wf node s"
    and "0 \<le> index" and "index < int (num_cameras node)"
  shows "CallbackImage i image_view s = (s, [])
       \<and> CallbackImu msg s = (s\<lparr>initial_imu_message := Some msg\<rparr>, [])
       \<and> (initialization_attempted (fst (snd (CallbackCameraInfo node ienv index info s)))
            \<longleftrightarrow> all_sensors_arrived node
                  (s\<lparr>initial_camera_info_messages :=
                       AList.update index info (initial_camera_info_messages s)\<rparr>))"
proof -
  let ?s1 = "s\<lparr>initial_camera_info_messages :=
                 AList.update index info (initial_camera_info_messages s)\<rparr>"
  have wf: "camera_infos_wf node ?s1"
    using camera_infos_wf_update [OF assms(2,3,4)] .
  have ready: "IsReadyForInitialization node ?s1 \<longleftrightarrow> all_sensors_arrived node ?s1"
    using wf size_eq_num_cameras_iff
            [of "initial_camera_info_messages ?s1" "num_cameras node"]
    unfolding camera_infos_wf_def IsReadyForInitialization_def all_sensors_arrived_def
    by auto
  have uninit: "\<not> IsInitialized ?s1"
    using assms(1) by (simp add: IsInitialized_def)
  have "initialization_attempted (fst (snd (CallbackCameraInfo node ienv index info s)))
          \<longleftrightarrow> IsReadyForInitialization node ?s1"
    using assms(1) Initialize_attempted [OF uninit, of node ienv]
    by (simp add: CallbackCameraInfo_def Let_def initialization_attempted_def)
  with ready assms(1) show ?thesis
    by (simp add: CallbackImage_def CallbackImu_def)
qed

theorem before_initialization_witness:
  "\<not> IsInitialized cameras_seen
   \<and> camera_infos_wf stereo_node cameras_seen
   \<and> CallbackImage 0 (frame_at 1) cameras_seen = (cameras_seen, [])
   \<and> CallbackImu (imu_sample 2) cameras_seen
       = (cameras_seen\<lparr>initial_imu_message := Some (imu_sample 2)\<rparr>, [])
   \<and> \<not> initialization_attempted
         (fst (snd (CallbackCameraInfo stereo_node tracker_ok 0 (camera_info 3) cameras_seen)))
   \<and> initialization_attempted
       (fst (snd (CallbackCameraInfo stereo_node tracker_ok 0 (camera_info 3)
                    (fst (CallbackImu (imu_sample 2) cameras_seen)))))"
proof -
  have h1: "\<not> IsInitialized cameras_seen"
    by (simp add: IsInitialized_def cameras_seen_eq constructed_def)
  have h2: "camera_infos_wf stereo_node cameras_seen"
    by (simp add: camera_infos_wf_def cameras_seen_eq constructed_def stereo_node_def)
  have h3: "(0::int) \<le> 0" "0 < int (num_cameras stereo_node)"
    by (simp_all add: stereo_node_def)
  let ?s = "cameras_seen\<lparr>initial_imu_message := Some (imu_sample 2)\<rparr>"
  have g1: "\<not> IsInitialized ?s"
    using h1 by (simp add: IsInitialized_def)
  have g2: "camera_infos_wf stereo_node ?s"
    using h2 by (simp add: camera_infos_wf_def)
  note first = before_initialization_only_camera_info_triggers_Initialize
                 [OF h1 h2 h3, of 0 "frame_at 1" "imu_sample 2" tracker_ok "camera_info 3"]
  note second = before_initialization_only_camera_info_triggers_Initialize
                  [OF g1 g2 h3, of 0 "frame_at 1" "imu_sample 2" tracker_ok "camera_info 3"]
  have a: "\<not> all_sensors_arrived stereo_node
               (cameras_seen\<lparr>initial_camera_info_messages :=
                   AList.update 0 (camera_info 3) (initial_camera_info_messages cameras_seen)\<rparr>)"
    by (simp add: all_sensors_arrived_def cameras_seen_eq constructed_def stereo_node_def)
  have b: "all_sensors_arrived stereo_node
             (?s\<lparr>initial_camera_info_messages :=
                   AList.update 0 (camera_info 3) (initial_camera_info_messages ?s)\<rparr>)"
    by (simp add: all_sensors_arrived_def cameras_seen_eq constructed_def stereo_node_def
        upt_rec [of 0] upt_rec [of "Suc _"] numeral_2_eq_2)
  from first second a b h1 h2 show ?thesis
    by simp
qed

text \<open>
  C9 as stated fails: both camera-info messages have arrived, IMU fusion is enabled, and
  the first IMU message arrives. Now every sensor has delivered a message, but the IMU
  callback does not attempt initialization and the tracker stays uninitialized.
\<close>

theorem imu_arriving_last_does_not_initialize:
  "\<not> all_sensors_arrived stereo_node cameras_seen
   \<and> all_sensors_arrived stereo_node (fst (CallbackImu (imu_sample 2) cameras_seen))
   \<and> \<not> initialization_attempted (snd (CallbackImu (imu_sample 2) cameras_seen))
   \<and> \<not> IsInitialized (fst (CallbackImu (imu_sample 2) cameras_seen))"
  by (simp add: all_sensors_arrived_def CallbackImu_def IsInitialized_def
      initialization_attempted_def cameras_seen_eq constructed_def stereo_node_def
      upt_rec [of 0] upt_rec [of "Suc _"] numeral_2_eq_2)

end
